theory Spec2Isabelle
  imports Complex_Main
begin

section \<open>The StaticWaves music subsystem\<close>

text \<open>
  A shallow embedding of \<^verbatim>\<open>StaticWavesMusicSubsystem.h\<close> and
  \<^verbatim>\<open>StaticWavesMusicSubsystem.cpp\<close>.

  The C++ type \<^verbatim>\<open>float\<close> is IEEE 754 binary32, and it is modelled as such: a value
  is a finite number, the negative zero, an infinity or a NaN, and every arithmetic
  operation rounds to the nearest binary32 number, a tie going to the even significand.
  Member functions that mutate the subsystem take the state and return the new one;
  what the subsystem does to the outside (calls on the WebSockets module, log lines) is
  appended to two traces kept in the state.
\<close>

subsection \<open>Binary32 numbers\<close>

text \<open>
  \<open>Fin x\<close> is the finite number \<open>x\<close> (the zero \<open>Fin 0\<close> is the positive one),
  \<open>NegZero\<close> the negative zero. The payload and the sign of a NaN are not kept: the
  code never looks at them.
\<close>

datatype f32 = Fin real | NegZero | PInf | NInf | NaN

text \<open>Rounding a real to the nearest integer, a tie to the even one.\<close>

definition round_half_even :: "real \<Rightarrow> int" where
  "round_half_even x =
     (let f = \<lfloor>x\<rfloor>; r = x - of_int f
      in if r < 1 / 2 then f else if 1 / 2 < r then f + 1
         else if even f then f else f + 1)"

text \<open>
  The unit in the last place of \<open>x\<close> is \<open>2 ^ (e - 23)\<close> where
  \<open>2 ^ e \<le> \<bar>x\<bar> < 2 ^ (e + 1)\<close>, and \<open>e\<close> is not taken below -126 (the subnormal
  numbers). \<open>fl32\<close> rounds a real to the nearest multiple of its unit in the last
  place, with no bound on the exponent from above; \<open>round_f32\<close> then turns a result
  beyond the largest binary32 number into an infinity, as IEEE 754 prescribes, and a
  zero result into the zero of the sign it is given.
\<close>

definition binary32_exponent :: "real \<Rightarrow> int" where
  "binary32_exponent x = max (- 126) \<lfloor>log 2 \<bar>x\<bar>\<rfloor>"

definition binary32_ulp :: "real \<Rightarrow> real" where
  "binary32_ulp x = 2 powi (binary32_exponent x - 23)"

definition fl32 :: "real \<Rightarrow> real" where
  "fl32 x = (if x = 0 then 0
             else of_int (round_half_even (x / binary32_ulp x)) * binary32_ulp x)"

definition FLT_MAX :: real where
  "FLT_MAX = 340282346638528859811704183484516925440"

definition round_f32 :: "bool \<Rightarrow> real \<Rightarrow> f32" where
  "round_f32 negative x =
     (let y = fl32 x
      in if FLT_MAX < \<bar>y\<bar> then (if y < 0 then NInf else PInf)
         else if y = 0 then (if negative then NegZero else Fin 0)
         else Fin y)"

text \<open>A decimal literal of the source, such as \<^verbatim>\<open>0.9f\<close>: the nearest binary32 number.\<close>

definition f32_lit :: "real \<Rightarrow> f32" where
  "f32_lit x = round_f32 (x < 0) x"

text \<open>The real a finite value denotes, the sign bit, and the kinds of values.\<close>

fun val :: "f32 \<Rightarrow> real" where
  "val (Fin x) = x"
| "val v = 0"

fun sign_bit :: "f32 \<Rightarrow> bool" where
  "sign_bit (Fin x) = (x < 0)"
| "sign_bit NegZero = True"
| "sign_bit NInf = True"
| "sign_bit v = False"

fun is_finite :: "f32 \<Rightarrow> bool" where
  "is_finite (Fin x) = True"
| "is_finite NegZero = True"
| "is_finite v = False"

fun is_infinite :: "f32 \<Rightarrow> bool" where
  "is_infinite PInf = True"
| "is_infinite NInf = True"
| "is_infinite v = False"

definition is_zero :: "f32 \<Rightarrow> bool" where
  "is_zero v \<longleftrightarrow> is_finite v \<and> val v = 0"

definition infinity :: "bool \<Rightarrow> f32" where
  "infinity negative = (if negative then NInf else PInf)"

definition zero :: "bool \<Rightarrow> f32" where
  "zero negative = (if negative then NegZero else Fin 0)"

text \<open>
  The operations of IEEE 754. A sum that is exactly zero is the negative zero only when
  both summands are; a product or quotient has the sign of its operands' signs.
\<close>

fun f32_neg :: "f32 \<Rightarrow> f32" where
  "f32_neg (Fin x) = (if x = 0 then NegZero else Fin (- x))"
| "f32_neg NegZero = Fin 0"
| "f32_neg PInf = NInf"
| "f32_neg NInf = PInf"
| "f32_neg NaN = NaN"

definition f32_add :: "f32 \<Rightarrow> f32 \<Rightarrow> f32" where
  "f32_add a b =
     (if a = NaN \<or> b = NaN then NaN
      else if is_infinite a \<and> is_infinite b then (if a = b then a else NaN)
      else if is_infinite a then a
      else if is_infinite b then b
      else let s = val a + val b
           in round_f32 (if s = 0 then a = NegZero \<and> b = NegZero else s < 0) s)"

definition f32_sub :: "f32 \<Rightarrow> f32 \<Rightarrow> f32" where
  "f32_sub a b = f32_add a (f32_neg b)"

definition f32_mul :: "f32 \<Rightarrow> f32 \<Rightarrow> f32" where
  "f32_mul a b =
     (if a = NaN \<or> b = NaN then NaN
      else if is_infinite a \<or> is_infinite b then
        (if is_zero a \<or> is_zero b then NaN else infinity (sign_bit a \<noteq> sign_bit b))
      else round_f32 (sign_bit a \<noteq> sign_bit b) (val a * val b))"

definition f32_div :: "f32 \<Rightarrow> f32 \<Rightarrow> f32" where
  "f32_div a b =
     (if a = NaN \<or> b = NaN then NaN
      else if is_infinite a then
        (if is_infinite b then NaN else infinity (sign_bit a \<noteq> sign_bit b))
      else if is_infinite b then zero (sign_bit a \<noteq> sign_bit b)
      else if is_zero b then
        (if is_zero a then NaN else infinity (sign_bit a \<noteq> sign_bit b))
      else round_f32 (sign_bit a \<noteq> sign_bit b) (val a / val b))"

text \<open>The comparison \<^verbatim>\<open><\<close>: false whenever a NaN is compared; the two zeros are equal.\<close>

fun f32_less :: "f32 \<Rightarrow> f32 \<Rightarrow> bool" where
  "f32_less NaN b = False"
| "f32_less a NaN = False"
| "f32_less a NInf = False"
| "f32_less NInf b = True"
| "f32_less PInf b = False"
| "f32_less a PInf = True"
| "f32_less a b = (val a < val b)"

subsection \<open>Engine functions the source calls\<close>

text \<open>
  \<^verbatim>\<open>FMath::Max\<close>, \<^verbatim>\<open>FMath::Clamp\<close> and \<^verbatim>\<open>FMath::Lerp\<close> belong to the engine,
  not to the two source files. They are written here as the engine's templates compute
  them on floats: \<^verbatim>\<open>Max(A,B) = (B < A) ? A : B\<close>, \<^verbatim>\<open>Min(A,B) = (A < B) ? A : B\<close>,
  \<^verbatim>\<open>Clamp(X,Min,Max) = Max(Min(X,Max),Min)\<close> and
  \<^verbatim>\<open>Lerp(A,B,Alpha) = A + Alpha * (B - A)\<close>, three rounded operations.
\<close>

definition FMath_Max :: "f32 \<Rightarrow> f32 \<Rightarrow> f32" where
  "FMath_Max A B = (if f32_less B A then A else B)"

definition FMath_Min :: "f32 \<Rightarrow> f32 \<Rightarrow> f32" where
  "FMath_Min A B = (if f32_less A B then A else B)"

definition FMath_Clamp :: "f32 \<Rightarrow> f32 \<Rightarrow> f32 \<Rightarrow> f32" where
  "FMath_Clamp X MinValue MaxValue = FMath_Max (FMath_Min X MaxValue) MinValue"

definition FMath_Lerp :: "f32 \<Rightarrow> f32 \<Rightarrow> f32 \<Rightarrow> f32" where
  "FMath_Lerp A B Alpha = f32_add A (f32_mul Alpha (f32_sub B A))"

text \<open>
  An \<^verbatim>\<open>FName\<close> is modelled by the string it was made from. The engine compares
  names without regard to the case of letters, and so does \<^verbatim>\<open>EventName == "..."\<close>.
\<close>

definition to_lower :: "char \<Rightarrow> char" where
  "to_lower c =
     (case map_of (zip ''ABCDEFGHIJKLMNOPQRSTUVWXYZ'' ''abcdefghijklmnopqrstuvwxyz'') c of
        Some l \<Rightarrow> l
      | None \<Rightarrow> c)"

definition FName_eq :: "string \<Rightarrow> string \<Rightarrow> bool" where
  "FName_eq EventName literal \<longleftrightarrow> map to_lower EventName = map to_lower literal"

subsection \<open>FMusicContext\<close>

record FMusicContext =
  Energy :: f32
  Tension :: f32
  Darkness :: f32
  Complexity :: f32

text \<open>The default constructor: every field at the midpoint, which is a binary32 number.\<close>

definition FMusicContext_default :: FMusicContext where
  "FMusicContext_default =
     \<lparr>Energy = Fin 0.5, Tension = Fin 0.5, Darkness = Fin 0.5, Complexity = Fin 0.5\<rparr>"

text \<open>
  \<^verbatim>\<open>ToJson\<close> prints each field with the C format \<^verbatim>\<open>%.2f\<close>: the exact value rounded
  to the nearest hundredth (a tie goes to the even neighbour), a minus sign when the
  sign bit is set, at least one digit before the point and two after it; an infinity
  is printed as \<^verbatim>\<open>inf\<close> and a NaN as \<^verbatim>\<open>nan\<close>.
\<close>

definition digit_char :: "nat \<Rightarrow> char" where
  "digit_char d = ''0123456789'' ! (d mod 10)"

fun dec_digits :: "nat \<Rightarrow> string" where
  "dec_digits n =
     (if n < 10 then [digit_char n] else dec_digits (n div 10) @ [digit_char (n mod 10)])"

declare dec_digits.simps [simp del]

definition fmt_2f_real :: "bool \<Rightarrow> real \<Rightarrow> string" where
  "fmt_2f_real negative x =
     (let n = nat (round_half_even (\<bar>x\<bar> * 100))
      in (if negative then ''-'' else []) @ dec_digits (n div 100) @ ''.'' @
         [digit_char (n mod 100 div 10), digit_char (n mod 10)])"

fun fmt_2f :: "f32 \<Rightarrow> string" where
  "fmt_2f (Fin x) = fmt_2f_real (x < 0) x"
| "fmt_2f NegZero = fmt_2f_real True 0"
| "fmt_2f PInf = ''inf''"
| "fmt_2f NInf = ''-inf''"
| "fmt_2f NaN = ''nan''"

definition ToJson :: "FMusicContext \<Rightarrow> string" where
  \<open>ToJson c =
     ''{"energy":'' @ fmt_2f (Energy c) @ '',"tension":'' @ fmt_2f (Tension c) @
     '',"darkness":'' @ fmt_2f (Darkness c) @ '',"complexity":'' @ fmt_2f (Complexity c) @
     ''}''\<close>

subsection \<open>The subsystem's state and its effects\<close>

text \<open>
  A socket made by \<^verbatim>\<open>FWebSocketsModule::CreateWebSocket\<close> is a number; the shared
  pointer \<^verbatim>\<open>WebSocket\<close> is \<open>None\<close> when it is not valid. Every call on the module or
  on a socket is recorded in \<open>net\<close>, oldest first, and every \<^verbatim>\<open>UE_LOG\<close> line in
  \<open>logs\<close>.
\<close>

datatype ws_call =
    is_create: CreateWebSocket nat string
  | BindCallbacks nat
  | WsConnect nat
  | WsClose nat
  | WsSend nat string

datatype verbosity = Log | Warning | Error | Verbose | VeryVerbose

record subsystem =
  WebSocket :: "nat option"
  CurrentContext :: FMusicContext
  TargetContext :: FMusicContext
  TransitionAlpha :: f32
  TransitionDuration :: f32
  bIsConnected :: bool
  ServerURL :: string
  WebSocketsLoaded :: bool
  net :: "ws_call list"
  logs :: "(verbosity \<times> string) list"

definition UE_LOG :: "verbosity \<Rightarrow> string \<Rightarrow> subsystem \<Rightarrow> subsystem" where
  "UE_LOG v msg s = s\<lparr>logs := logs s @ [(v, msg)]\<rparr>"

definition call_ws :: "ws_call \<Rightarrow> subsystem \<Rightarrow> subsystem" where
  "call_ws c s = s\<lparr>net := net s @ [c]\<rparr>"

text \<open>The number of the next socket the module creates.\<close>

definition fresh_socket :: "ws_call list \<Rightarrow> nat" where
  "fresh_socket calls = length (filter is_create calls)"

text \<open>
  The constructor together with the member initialisers of the header: both contexts
  at the default, nothing in flight (progress \<^verbatim>\<open>1.0f\<close>, duration \<^verbatim>\<open>1.0f\<close>), not
  connected.
\<close>

definition UStaticWavesMusicSubsystem :: subsystem where
  "UStaticWavesMusicSubsystem =
     \<lparr>WebSocket = None,
      CurrentContext = FMusicContext_default,
      TargetContext = FMusicContext_default,
      TransitionAlpha = Fin 1,
      TransitionDuration = Fin 1,
      bIsConnected = False,
      ServerURL = [],
      WebSocketsLoaded = False,
      net = [],
      logs = []\<rparr>"

subsection \<open>Connection\<close>

text \<open>
  \<^verbatim>\<open>Initialize\<close> and \<^verbatim>\<open>Deinitialize\<close> (the ticker's registration; the latter
  also calls \<^verbatim>\<open>Disconnect\<close>) and \<^verbatim>\<open>OnRawMessage\<close> (a log line) take no part in
  the properties below and are not modelled.
\<close>

definition Connect :: "string \<Rightarrow> subsystem \<Rightarrow> subsystem" where
  "Connect InServerURL s =
     (if bIsConnected s then UE_LOG Warning ''[StaticWaves] Already connected'' s
      else
        let s1 = s\<lparr>ServerURL := InServerURL\<rparr>;
            s2 = (if \<not> WebSocketsLoaded s1 then s1\<lparr>WebSocketsLoaded := True\<rparr> else s1);
            w = fresh_socket (net s2);
            s3 = (call_ws (CreateWebSocket w (ServerURL s2)) s2)\<lparr>WebSocket := Some w\<rparr>;
            s4 = call_ws (BindCallbacks w) s3;
            s5 = call_ws (WsConnect w) s4
        in UE_LOG Log (''[StaticWaves] Connecting to '' @ ServerURL s5 @ ''...'') s5)"

definition Disconnect :: "subsystem \<Rightarrow> subsystem" where
  "Disconnect s =
     (if \<not> bIsConnected s then s
      else
        let s1 = (case WebSocket s of
                    Some w \<Rightarrow> (call_ws (WsClose w) s)\<lparr>WebSocket := None\<rparr>
                  | None \<Rightarrow> s);
            s2 = s1\<lparr>bIsConnected := False\<rparr>
        in UE_LOG Log ''[StaticWaves] Disconnected'' s2)"

definition SendControlUpdate :: "subsystem \<Rightarrow> subsystem" where
  "SendControlUpdate s =
     (if \<not> bIsConnected s then s
      else case WebSocket s of
        None \<Rightarrow> s
      | Some w \<Rightarrow>
          let JsonString = ToJson (CurrentContext s)
          in UE_LOG Verbose (''[StaticWaves] Sent: '' @ JsonString)
               (call_ws (WsSend w JsonString) s))"

definition OnConnected :: "subsystem \<Rightarrow> subsystem" where
  "OnConnected s =
     SendControlUpdate
       (UE_LOG Log ''[StaticWaves] Connected successfully'' (s\<lparr>bIsConnected := True\<rparr>))"

definition OnConnectionError :: "string \<Rightarrow> subsystem \<Rightarrow> subsystem" where
  "OnConnectionError err s =
     UE_LOG Error (''[StaticWaves] Connection error: '' @ err) (s\<lparr>bIsConnected := False\<rparr>)"

definition show_int :: "int \<Rightarrow> string" where
  "show_int i = (if i < 0 then ''-'' else []) @ dec_digits (nat \<bar>i\<bar>)"

definition OnClosed :: "int \<Rightarrow> string \<Rightarrow> bool \<Rightarrow> subsystem \<Rightarrow> subsystem" where
  "OnClosed StatusCode Reason bWasClean s =
     UE_LOG Log
       (''[StaticWaves] Connection closed: '' @ Reason @ '' (Code: '' @ show_int StatusCode @ '')'')
       (s\<lparr>bIsConnected := False\<rparr>)"

definition OnMessage :: "string \<Rightarrow> subsystem \<Rightarrow> subsystem" where
  "OnMessage Message s = UE_LOG Verbose (''[StaticWaves] Received message: '' @ Message) s"

subsection \<open>Setting and moving the context\<close>

text \<open>
  The literals \<^verbatim>\<open>0.0f\<close>, \<^verbatim>\<open>0.5f\<close> and \<^verbatim>\<open>1.0f\<close> are binary32 numbers and are
  written \<open>Fin 0\<close>, \<open>Fin 0.5\<close> and \<open>Fin 1\<close>; every other literal is rounded by
  \<open>f32_lit\<close>.
\<close>

definition SetMusicContext :: "FMusicContext \<Rightarrow> subsystem \<Rightarrow> subsystem" where
  "SetMusicContext Context s =
     SendControlUpdate
       (s\<lparr>CurrentContext := Context, TargetContext := Context, TransitionAlpha := Fin 1\<rparr>)"

definition TransitionToContext :: "FMusicContext \<Rightarrow> f32 \<Rightarrow> subsystem \<Rightarrow> subsystem" where
  "TransitionToContext Context TransitionTime s =
     s\<lparr>TargetContext := Context,
       TransitionDuration := FMath_Max (f32_lit 0.1) TransitionTime,
       TransitionAlpha := Fin 0\<rparr>"

text \<open>The header's default argument of \<^verbatim>\<open>TransitionToContext\<close>, \<^verbatim>\<open>1.0f\<close>.\<close>

definition default_TransitionTime :: f32 where
  "default_TransitionTime = Fin 1"

definition SetExploration :: "subsystem \<Rightarrow> subsystem" where
  "SetExploration s =
     TransitionToContext
       \<lparr>Energy = f32_lit 0.3, Tension = f32_lit 0.1, Darkness = f32_lit 0.2,
        Complexity = f32_lit 0.4\<rparr>
       default_TransitionTime s"

definition SetCombat :: "subsystem \<Rightarrow> subsystem" where
  "SetCombat s =
     TransitionToContext
       \<lparr>Energy = f32_lit 0.9, Tension = f32_lit 0.8, Darkness = f32_lit 0.6,
        Complexity = f32_lit 0.7\<rparr>
       default_TransitionTime s"

definition SetBoss :: "subsystem \<Rightarrow> subsystem" where
  "SetBoss s =
     TransitionToContext
       \<lparr>Energy = Fin 1, Tension = f32_lit 0.95, Darkness = f32_lit 0.8,
        Complexity = f32_lit 0.9\<rparr>
       default_TransitionTime s"

definition SetPuzzle :: "subsystem \<Rightarrow> subsystem" where
  "SetPuzzle s =
     TransitionToContext
       \<lparr>Energy = f32_lit 0.4, Tension = Fin 0.5, Darkness = f32_lit 0.3,
        Complexity = f32_lit 0.6\<rparr>
       default_TransitionTime s"

definition SetVictory :: "subsystem \<Rightarrow> subsystem" where
  "SetVictory s =
     TransitionToContext
       \<lparr>Energy = f32_lit 0.7, Tension = f32_lit 0.2, Darkness = f32_lit 0.1,
        Complexity = Fin 0.5\<rparr>
       default_TransitionTime s"

definition PushMusicEvent :: "string \<Rightarrow> f32 \<Rightarrow> subsystem \<Rightarrow> subsystem" where
  "PushMusicEvent EventName Intensity s =
     (if FName_eq EventName ''combat_start'' then SetCombat s
      else if FName_eq EventName ''boss_enter'' then SetBoss s
      else if FName_eq EventName ''puzzle_start'' then SetPuzzle s
      else if FName_eq EventName ''victory'' then SetVictory s
      else
        let Context = CurrentContext s;
            Context = Context\<lparr>Tension := FMath_Clamp Intensity (Fin 0) (Fin 1)\<rparr>
        in TransitionToContext Context (Fin 0.5) s)"

text \<open>
  \<^verbatim>\<open>Tick\<close> is the ticker's callback. Its \<^verbatim>\<open>return true\<close> only tells the ticker to
  go on calling it; the model returns the state.
\<close>

definition Tick :: "f32 \<Rightarrow> subsystem \<Rightarrow> subsystem" where
  "Tick DeltaTime s =
     (if f32_less (TransitionAlpha s) (Fin 1) then
        let s1 = s\<lparr>TransitionAlpha :=
                    f32_add (TransitionAlpha s) (f32_div DeltaTime (TransitionDuration s))\<rparr>;
            s2 = s1\<lparr>TransitionAlpha := FMath_Clamp (TransitionAlpha s1) (Fin 0) (Fin 1)\<rparr>;
            s3 = s2\<lparr>CurrentContext := (CurrentContext s2)
                    \<lparr>Energy := FMath_Lerp (Energy (CurrentContext s2))
                        (Energy (TargetContext s2)) (TransitionAlpha s2)\<rparr>\<rparr>;
            s4 = s3\<lparr>CurrentContext := (CurrentContext s3)
                    \<lparr>Tension := FMath_Lerp (Tension (CurrentContext s3))
                        (Tension (TargetContext s3)) (TransitionAlpha s3)\<rparr>\<rparr>;
            s5 = s4\<lparr>CurrentContext := (CurrentContext s4)
                    \<lparr>Darkness := FMath_Lerp (Darkness (CurrentContext s4))
                        (Darkness (TargetContext s4)) (TransitionAlpha s4)\<rparr>\<rparr>;
            s6 = s5\<lparr>CurrentContext := (CurrentContext s5)
                    \<lparr>Complexity := FMath_Lerp (Complexity (CurrentContext s5))
                        (Complexity (TargetContext s5)) (TransitionAlpha s5)\<rparr>\<rparr>
        in SendControlUpdate s6
      else s)"

subsection \<open>Operations as data, and runs\<close>

text \<open>
  Everything that can happen to the subsystem: the host's calls, the ticker's call and
  the socket's callbacks. A run executes a list of them in order.
\<close>

datatype operation =
    OpConnect string
  | OpDisconnect
  | OpSetMusicContext FMusicContext
  | OpTransitionToContext FMusicContext f32
  | OpSetExploration
  | OpSetCombat
  | OpSetBoss
  | OpSetPuzzle
  | OpSetVictory
  | OpPushMusicEvent string f32
  | OpTick f32
  | EvConnected
  | EvConnectionError string
  | EvClosed int string bool
  | EvMessage string

fun exec :: "operation \<Rightarrow> subsystem \<Rightarrow> subsystem" where
  "exec (OpConnect url) s = Connect url s"
| "exec OpDisconnect s = Disconnect s"
| "exec (OpSetMusicContext c) s = SetMusicContext c s"
| "exec (OpTransitionToContext c t) s = TransitionToContext c t s"
| "exec OpSetExploration s = SetExploration s"
| "exec OpSetCombat s = SetCombat s"
| "exec OpSetBoss s = SetBoss s"
| "exec OpSetPuzzle s = SetPuzzle s"
| "exec OpSetVictory s = SetVictory s"
| "exec (OpPushMusicEvent n i) s = PushMusicEvent n i s"
| "exec (OpTick dt) s = Tick dt s"
| "exec EvConnected s = OnConnected s"
| "exec (EvConnectionError e) s = OnConnectionError e s"
| "exec (EvClosed code reason clean) s = OnClosed code reason clean s"
| "exec (EvMessage m) s = OnMessage m s"

fun run :: "operation list \<Rightarrow> subsystem \<Rightarrow> subsystem" where
  "run [] s = s"
| "run (x # xs) s = run xs (exec x s)"

subsection \<open>Observations used by the properties\<close>

text \<open>The text frames sent so far, oldest first.\<close>

fun sends :: "ws_call list \<Rightarrow> string list" where
  "sends [] = []"
| "sends (WsSend w js # cs) = js # sends cs"
| "sends (c # cs) = sends cs"

text \<open>The sockets created so far, oldest first.\<close>

fun created :: "ws_call list \<Rightarrow> nat list" where
  "created [] = []"
| "created (CreateWebSocket w url # cs) = w # created cs"
| "created (c # cs) = created cs"

text \<open>
  A binary32 number between 0 and 1, and a context whose four fields are such numbers.
\<close>

fun unit_f32 :: "f32 \<Rightarrow> bool" where
  "unit_f32 (Fin x) = (fl32 x = x \<and> 0 \<le> x \<and> x \<le> 1)"
| "unit_f32 v = False"

definition in_unit :: "FMusicContext \<Rightarrow> bool" where
  "in_unit c \<longleftrightarrow>
     unit_f32 (Energy c) \<and> unit_f32 (Tension c) \<and> unit_f32 (Darkness c) \<and>
     unit_f32 (Complexity c)"

definition contexts_in_unit :: "subsystem \<Rightarrow> bool" where
  "contexts_in_unit s \<longleftrightarrow> in_unit (CurrentContext s) \<and> in_unit (TargetContext s)"

text \<open>
  A value of the type \<^verbatim>\<open>float\<close>: when it is finite, it is a binary32 number. (The
  type \<open>f32\<close> has a \<open>Fin x\<close> for every real \<open>x\<close>.)
\<close>

fun is_f32 :: "f32 \<Rightarrow> bool" where
  "is_f32 (Fin x) = (fl32 x = x \<and> \<bar>x\<bar> \<le> FLT_MAX)"
| "is_f32 v = True"

text \<open>
  The contexts an operation carries lie in the unit interval. Of the intensity of an
  event only that it is a \<^verbatim>\<open>float\<close> is asked, and nothing of durations and tick
  times.
\<close>

fun args_in_unit :: "operation \<Rightarrow> bool" where
  "args_in_unit (OpSetMusicContext c) = in_unit c"
| "args_in_unit (OpTransitionToContext c t) = in_unit c"
| "args_in_unit (OpPushMusicEvent n i) = is_f32 i"
| "args_in_unit x = True"

text \<open>A finite value above zero, and a value that is zero or below it.\<close>

fun positive_finite :: "f32 \<Rightarrow> bool" where
  "positive_finite (Fin d) = (0 < d)"
| "positive_finite v = False"

definition nonpositive :: "f32 \<Rightarrow> bool" where
  "nonpositive dt \<longleftrightarrow> is_zero dt \<or> f32_less dt (Fin 0)"

text \<open>
  Both fields are finite binary32 numbers and so is the target's difference from the
  current one: the subtraction in \<^verbatim>\<open>Lerp\<close> neither rounds nor overflows.
\<close>

fun exact_field :: "f32 \<Rightarrow> f32 \<Rightarrow> bool" where
  "exact_field (Fin x) (Fin y) =
     (fl32 y = y \<and> \<bar>y\<bar> \<le> FLT_MAX \<and> fl32 (y - x) = y - x \<and> \<bar>y - x\<bar> \<le> FLT_MAX)"
| "exact_field c t = False"

definition exact_difference :: "FMusicContext \<Rightarrow> FMusicContext \<Rightarrow> bool" where
  "exact_difference c t \<longleftrightarrow>
     exact_field (Energy c) (Energy t) \<and> exact_field (Tension c) (Tension t) \<and>
     exact_field (Darkness c) (Darkness t) \<and> exact_field (Complexity c) (Complexity t)"

text \<open>
  The specification's \<open>clamp()\<close> of a context, which projects each field into the unit
  interval. It follows the specification's words: the source has no such function, and
  the properties below compare what the source stores with it.
\<close>

definition spec_clamp :: "FMusicContext \<Rightarrow> FMusicContext" where
  "spec_clamp c =
     \<lparr>Energy = FMath_Clamp (Energy c) (Fin 0) (Fin 1),
      Tension = FMath_Clamp (Tension c) (Fin 0) (Fin 1),
      Darkness = FMath_Clamp (Darkness c) (Fin 0) (Fin 1),
      Complexity = FMath_Clamp (Complexity c) (Fin 0) (Fin 1)\<rparr>"

text \<open>
  The operations that only touch the contexts and the transition: the setters, the
  presets, the named events and the tick. The others are the connection calls and the
  socket's callbacks.
\<close>

fun context_op :: "operation \<Rightarrow> bool" where
  "context_op (OpSetMusicContext c) = True"
| "context_op (OpTransitionToContext c t) = True"
| "context_op OpSetExploration = True"
| "context_op OpSetCombat = True"
| "context_op OpSetBoss = True"
| "context_op OpSetPuzzle = True"
| "context_op OpSetVictory = True"
| "context_op (OpPushMusicEvent n i) = True"
| "context_op (OpTick dt) = True"
| "context_op x = False"

text \<open>
  The state after the assignments in the body of \<^verbatim>\<open>Tick\<close>, with \<open>p\<close> the clamped
  progress, before the update is sent.
\<close>

definition moved :: "f32 \<Rightarrow> subsystem \<Rightarrow> subsystem" where
  "moved p s =
     s\<lparr>TransitionAlpha := p,
       CurrentContext :=
         \<lparr>Energy = FMath_Lerp (Energy (CurrentContext s)) (Energy (TargetContext s)) p,
          Tension = FMath_Lerp (Tension (CurrentContext s)) (Tension (TargetContext s)) p,
          Darkness = FMath_Lerp (Darkness (CurrentContext s)) (Darkness (TargetContext s)) p,
          Complexity = FMath_Lerp (Complexity (CurrentContext s)) (Complexity (TargetContext s)) p\<rparr>\<rparr>"

subsection \<open>States used in the examples\<close>

text \<open>
  A transition in flight: \<^verbatim>\<open>SetCombat\<close> on the freshly constructed subsystem,
  followed by a tick of a quarter of a second.
\<close>

definition in_flight :: subsystem where
  "in_flight = Tick (Fin 0.25) (SetCombat UStaticWavesMusicSubsystem)"

text \<open>
  A connection attempt under way: \<^verbatim>\<open>Connect\<close> on the freshly constructed subsystem,
  no callback yet. Then the same after the socket has reported that it is open.
\<close>

definition connecting :: subsystem where
  "connecting = Connect ''ws://localhost:8765'' UStaticWavesMusicSubsystem"

definition connected :: subsystem where
  "connected = OnConnected connecting"

text \<open>
  Connected, and a transition started towards the context the subsystem is already
  at.
\<close>

definition idle_transition :: subsystem where
  "idle_transition = TransitionToContext FMusicContext_default (Fin 1) connected"

text \<open>
  What a host may do between \<^verbatim>\<open>Connect\<close> and the moment the socket reports that it
  is open: start a transition, tick, call \<^verbatim>\<open>Disconnect\<close> (which returns at once, the
  subsystem not being connected), receive a message, tick again.
\<close>

definition before_open :: "operation list" where
  "before_open =
     [OpConnect ''ws://localhost:8765'', OpSetCombat, OpTick (Fin 0.25), OpDisconnect,
      EvMessage ''hello'', OpTick (Fin 0.25)]"


section \<open>Properties\<close>

text \<open>
  First the facts about rounding that the properties of the subsystem rest on, then
  the evaluation of the example runs, then the properties, one subsection each.
\<close>

subsection \<open>Rounding to an integer\<close>

lemma rhe_of_int [simp]: "round_half_even (of_int n) = n"
  by (simp add: round_half_even_def)

lemma rhe_le: "x \<le> of_int j \<Longrightarrow> round_half_even x \<le> j"
proof -
  assume a: "x \<le> of_int j"
  then have f: "\<lfloor>x\<rfloor> \<le> j" by (simp add: floor_le_iff)
  show ?thesis
  proof (cases "\<lfloor>x\<rfloor> = j")
    case True
    with a have "x = of_int \<lfloor>x\<rfloor>" by linarith
    then have "round_half_even x = \<lfloor>x\<rfloor>"
      by (metis rhe_of_int floor_of_int)
    with True show ?thesis by simp
  next
    case False
    with f have "\<lfloor>x\<rfloor> + 1 \<le> j" by simp
    moreover have "round_half_even x \<le> \<lfloor>x\<rfloor> + 1"
      by (simp add: round_half_even_def Let_def)
    ultimately show ?thesis by linarith
  qed
qed

lemma rhe_ge: "of_int j \<le> x \<Longrightarrow> j \<le> round_half_even x"
proof -
  assume "of_int j \<le> x"
  then have "j \<le> \<lfloor>x\<rfloor>" by (simp add: le_floor_iff)
  moreover have "\<lfloor>x\<rfloor> \<le> round_half_even x"
    by (simp add: round_half_even_def Let_def)
  ultimately show ?thesis by linarith
qed

lemma rhe_err: "\<bar>of_int (round_half_even x) - x\<bar> \<le> 1 / 2"
proof -
  have "of_int \<lfloor>x\<rfloor> \<le> x" "x < of_int \<lfloor>x\<rfloor> + 1" by linarith+
  then show ?thesis
    by (auto simp: round_half_even_def Let_def)
qed

lemma rhe_minus: "round_half_even (- x) = - round_half_even x"
proof (cases "x = of_int \<lfloor>x\<rfloor>")
  case True
  then obtain n where "x = of_int n" ..
  then show ?thesis by (simp flip: of_int_minus)
next
  case False
  then have fl: "\<lfloor>- x\<rfloor> = - \<lfloor>x\<rfloor> - 1"
    by (simp add: floor_minus ceiling_altdef)
  have b: "of_int \<lfloor>x\<rfloor> < x" "x < of_int \<lfloor>x\<rfloor> + 1"
    using False by linarith+
  have ev: "even (- \<lfloor>x\<rfloor> - 1) \<longleftrightarrow> odd \<lfloor>x\<rfloor>" by simp
  show ?thesis
    using b unfolding round_half_even_def Let_def fl ev
    by (auto simp: algebra_simps)
qed

subsection \<open>Powers of two and the exponent\<close>

lemma two_powi_pos [simp]: "(0::real) < 2 powi e"
  by simp

lemma two_powi_mono: "a \<le> b \<Longrightarrow> (2::real) powi a \<le> 2 powi b"
  by (rule power_int_increasing) simp_all

lemma two_powi_strict: "a < b \<Longrightarrow> (2::real) powi a < 2 powi b"
  by (rule power_int_strict_increasing) simp_all

lemma two_powi_Suc: "(2::real) powi (e + 1) = 2 * 2 powi e"
  by (simp add: power_int_add)

lemma floor_log2_bounds:
  assumes "x \<noteq> 0"
  shows "2 powi \<lfloor>log 2 \<bar>x\<bar>\<rfloor> \<le> \<bar>x\<bar>" and "\<bar>x\<bar> < 2 powi (\<lfloor>log 2 \<bar>x\<bar>\<rfloor> + 1)"
proof -
  have pos: "0 < \<bar>x\<bar>" using assms by simp
  have "2 powr real_of_int \<lfloor>log 2 \<bar>x\<bar>\<rfloor> \<le> \<bar>x\<bar> \<and>
        \<bar>x\<bar> < 2 powr real_of_int (\<lfloor>log 2 \<bar>x\<bar>\<rfloor> + 1)"
    using floor_log_eq_powr_iff [OF pos, of 2 "\<lfloor>log 2 \<bar>x\<bar>\<rfloor>"] by simp
  then show "2 powi \<lfloor>log 2 \<bar>x\<bar>\<rfloor> \<le> \<bar>x\<bar>" and "\<bar>x\<bar> < 2 powi (\<lfloor>log 2 \<bar>x\<bar>\<rfloor> + 1)"
    by (simp_all add: powr_real_of_int' del: of_int_add)
qed

lemma floor_log2_eq:
  assumes "2 powi e \<le> \<bar>x\<bar>" "\<bar>x\<bar> < 2 powi (e + 1)"
  shows "\<lfloor>log 2 \<bar>x\<bar>\<rfloor> = e"
proof -
  have "(0::real) < 2 powi e" by simp
  with assms(1) have pos: "0 < \<bar>x\<bar>" by linarith
  have "2 powr real_of_int e \<le> \<bar>x\<bar> \<and> \<bar>x\<bar> < 2 powr real_of_int (e + 1)"
    using assms by (simp add: powr_real_of_int' del: of_int_add)
  then show ?thesis
    using floor_log_eq_powr_iff [OF pos, of 2 e] by simp
qed

lemma exponent_upper:
  assumes "x \<noteq> 0"
  shows "\<bar>x\<bar> < 2 powi (binary32_exponent x + 1)"
proof -
  have "\<lfloor>log 2 \<bar>x\<bar>\<rfloor> + 1 \<le> binary32_exponent x + 1"
    by (simp add: binary32_exponent_def)
  then have "(2::real) powi (\<lfloor>log 2 \<bar>x\<bar>\<rfloor> + 1) \<le> 2 powi (binary32_exponent x + 1)"
    by (rule two_powi_mono)
  with floor_log2_bounds(2) [OF assms] show ?thesis by linarith
qed

lemma exponent_lower:
  assumes "x \<noteq> 0" "- 126 < binary32_exponent x"
  shows "2 powi binary32_exponent x \<le> \<bar>x\<bar>"
proof -
  from assms(2) have "binary32_exponent x = \<lfloor>log 2 \<bar>x\<bar>\<rfloor>"
    by (simp add: binary32_exponent_def max_def split: if_splits)
  with floor_log2_bounds(1) [OF assms(1)] show ?thesis by simp
qed

lemma exponent_ge [simp]: "- 126 \<le> binary32_exponent x"
  by (simp add: binary32_exponent_def)

lemma exponent_eq:
  assumes "2 powi e \<le> \<bar>x\<bar>" "\<bar>x\<bar> < 2 powi (e + 1)" "- 126 \<le> e"
  shows "binary32_exponent x = e"
  using floor_log2_eq [OF assms(1,2)] assms(3) by (simp add: binary32_exponent_def)

lemma exponent_subnormal:
  assumes "x \<noteq> 0" "\<bar>x\<bar> < 2 powi (- 126)"
  shows "binary32_exponent x = - 126"
proof (rule ccontr)
  assume "binary32_exponent x \<noteq> - 126"
  then have g: "- 126 < binary32_exponent x"
    using exponent_ge [of x] by linarith
  then have "(2::real) powi (- 126) \<le> 2 powi binary32_exponent x"
    by (intro two_powi_mono) simp
  with exponent_lower [OF assms(1) g] assms(2) show False by linarith
qed

lemma exponent_minus [simp]: "binary32_exponent (- x) = binary32_exponent x"
  by (simp add: binary32_exponent_def)

lemma ulp_minus [simp]: "binary32_ulp (- x) = binary32_ulp x"
  by (simp add: binary32_ulp_def)

lemma ulp_pos [simp]: "0 < binary32_ulp x"
  by (simp add: binary32_ulp_def)

lemma exponent_mono:
  assumes "x \<noteq> 0" "\<bar>x\<bar> \<le> \<bar>y\<bar>"
  shows "binary32_exponent x \<le> binary32_exponent y"
proof -
  have "log 2 \<bar>x\<bar> \<le> log 2 \<bar>y\<bar>"
    using assms by (subst log_le_cancel_iff) simp_all
  then have "\<lfloor>log 2 \<bar>x\<bar>\<rfloor> \<le> \<lfloor>log 2 \<bar>y\<bar>\<rfloor>" by (rule floor_mono)
  then show ?thesis by (simp add: binary32_exponent_def)
qed

subsection \<open>Rounding to binary32\<close>

lemma fl32_0 [simp]: "fl32 0 = 0"
  by (simp add: fl32_def)

lemma fl32_minus: "fl32 (- x) = - fl32 x"
  by (simp add: fl32_def rhe_minus)

lemma ulp_nonneg [simp]: "0 \<le> binary32_ulp x"
  by (simp add: binary32_ulp_def)

lemma fl32_nonneg: "0 \<le> x \<Longrightarrow> 0 \<le> fl32 x"
proof -
  assume "0 \<le> x"
  then have "of_int 0 \<le> x / binary32_ulp x"
    using ulp_pos [of x] by (simp add: divide_nonneg_pos)
  then have "0 \<le> round_half_even (x / binary32_ulp x)" by (rule rhe_ge)
  then show ?thesis by (simp add: fl32_def)
qed

lemma fl32_nonpos: "x \<le> 0 \<Longrightarrow> fl32 x \<le> 0"
  using fl32_nonneg [of "- x"] by (simp add: fl32_minus)

lemma two_powi_23_24: "(2::real) powi 23 = 8388608" "(2::real) powi 24 = 16777216"
  using power_int_of_nat [of "2::real" 23] power_int_of_nat [of "2::real" 24] by simp_all

lemma two_powi_split:
  "(2::real) powi e = 8388608 * 2 powi (e - 23)"
  "(2::real) powi (e + 1) = 16777216 * 2 powi (e - 23)"
  using power_int_add [of "2::real" 23 "e - 23"] power_int_add [of "2::real" 24 "e - 23"]
  by (simp_all add: two_powi_23_24 add.commute)

lemma ulp_binade:
  "2 powi (binary32_exponent x + 1) = 16777216 * binary32_ulp x"
  "2 powi binary32_exponent x = 8388608 * binary32_ulp x"
  unfolding binary32_ulp_def by (rule two_powi_split(2), rule two_powi_split(1))

lemma quot_upper:
  assumes "x \<noteq> 0"
  shows "\<bar>x / binary32_ulp x\<bar> < 16777216"
proof -
  have "\<bar>x\<bar> < 16777216 * binary32_ulp x"
    using exponent_upper [OF assms] by (simp add: ulp_binade)
  then show ?thesis by (simp add: pos_divide_less_eq abs_of_pos)
qed

lemma quot_lower:
  assumes "x \<noteq> 0" "- 126 < binary32_exponent x"
  shows "8388608 \<le> \<bar>x / binary32_ulp x\<bar>"
proof -
  have "8388608 * binary32_ulp x \<le> \<bar>x\<bar>"
    using exponent_lower [OF assms] by (simp add: ulp_binade)
  then show ?thesis by (simp add: pos_le_divide_eq abs_of_pos)
qed

lemma rhe_abs_le:
  assumes "\<bar>y\<bar> \<le> of_int j"
  shows "\<bar>round_half_even y\<bar> \<le> j"
proof -
  have "y \<le> of_int j" and "of_int (- j) \<le> y" using assms by simp_all
  then have "round_half_even y \<le> j" and "- j \<le> round_half_even y"
    by (simp_all add: rhe_le rhe_ge)
  then show ?thesis by simp
qed

lemma rhe_abs_ge:
  assumes "of_int j \<le> \<bar>y\<bar>"
  shows "j \<le> \<bar>round_half_even y\<bar>"
proof (cases "0 \<le> y")
  case True
  with assms have "of_int j \<le> y" by simp
  then have "j \<le> round_half_even y" by (rule rhe_ge)
  then show ?thesis by simp
next
  case False
  with assms have "y \<le> of_int (- j)" by simp
  then have "round_half_even y \<le> - j" by (rule rhe_le)
  then show ?thesis by simp
qed

lemma fl32_multiple:
  assumes e: "- 126 \<le> e" and k: "\<bar>k\<bar> \<le> 16777216"
    and n: "8388608 \<le> \<bar>k\<bar> \<or> e = - 126"
  shows "fl32 (of_int k * 2 powi (e - 23)) = of_int k * 2 powi (e - 23)"
proof -
  let ?u = "(2::real) powi (e - 23)"
  let ?x = "of_int k * ?u"
  have u: "0 < ?u" by simp
  have pe: "(2::real) powi e = 8388608 * ?u"
    by (rule two_powi_split(1))
  have pe1: "(2::real) powi (e + 1) = 16777216 * ?u"
    by (rule two_powi_split(2))
  have ax: "\<bar>?x\<bar> = of_int \<bar>k\<bar> * ?u" by (simp add: abs_mult)
  show ?thesis
  proof (cases "k = 0")
    case True
    then show ?thesis by simp
  next
    case k0: False
    then have x0: "?x \<noteq> 0" by simp
    show ?thesis
    proof (cases "\<bar>k\<bar> = 16777216")
      case True
      have "\<bar>?x\<bar> = 2 powi (e + 1)" by (simp add: ax True pe1)
      then have "2 powi (e + 1) \<le> \<bar>?x\<bar>" and "\<bar>?x\<bar> < 2 powi (e + 1 + 1)"
        by (simp_all add: two_powi_strict)
      then have "binary32_exponent ?x = e + 1"
        using e by (intro exponent_eq) simp_all
      then have ul: "binary32_ulp ?x = 2 * ?u"
        by (simp add: binary32_ulp_def) (simp add: power_int_add field_simps flip: two_powi_Suc)
      have ev: "k = 2 * (k div 2)" using True by presburger
      have "?x / binary32_ulp ?x = of_int k / 2" by (simp add: ul)
      also have "\<dots> = of_int (k div 2)" by (subst ev) simp
      finally have "round_half_even (?x / binary32_ulp ?x) = k div 2" by simp
      then have "fl32 ?x = of_int (k div 2) * (2 * ?u)"
        using x0 by (simp add: fl32_def ul)
      also have "\<dots> = of_int (2 * (k div 2)) * ?u" by simp
      also have "\<dots> = ?x" using ev by simp
      finally show ?thesis .
    next
      case False
      with k have lt: "\<bar>k\<bar> < 16777216" by simp
      then have up: "\<bar>?x\<bar> < 2 powi (e + 1)"
        unfolding ax pe1 using u by (intro mult_strict_right_mono) simp_all
      have ex: "binary32_exponent ?x = e"
      proof (cases "8388608 \<le> \<bar>k\<bar>")
        case True
        then have "8388608 * ?u \<le> of_int \<bar>k\<bar> * ?u"
          using u by (intro mult_right_mono) simp_all
        then have "2 powi e \<le> \<bar>?x\<bar>" by (simp add: ax pe)
        with up e show ?thesis by (intro exponent_eq)
      next
        case False
        with n have e126: "e = - 126" by simp
        from False have "of_int \<bar>k\<bar> * ?u < 8388608 * ?u"
          using u by (intro mult_strict_right_mono) simp_all
        then have "\<bar>?x\<bar> < 2 powi e" by (simp add: ax pe)
        then show ?thesis using x0 unfolding e126 by (intro exponent_subnormal)
      qed
      then have ul: "binary32_ulp ?x = ?u" by (simp add: binary32_ulp_def)
      then have "?x / binary32_ulp ?x = of_int k" by simp
      then have "round_half_even (?x / binary32_ulp ?x) = k" by simp
      then show ?thesis using x0 by (simp add: fl32_def ul)
    qed
  qed
qed

lemma fl32_idem [simp]: "fl32 (fl32 x) = fl32 x"
proof (cases "x = 0")
  case True
  then show ?thesis by simp
next
  case False
  let ?k = "round_half_even (x / binary32_ulp x)"
  have f: "fl32 x = of_int ?k * 2 powi (binary32_exponent x - 23)"
    using False by (simp add: fl32_def binary32_ulp_def)
  have "\<bar>x / binary32_ulp x\<bar> \<le> of_int 16777216"
    using quot_upper [OF False] by simp
  then have k: "\<bar>?k\<bar> \<le> 16777216" by (rule rhe_abs_le)
  have n: "8388608 \<le> \<bar>?k\<bar> \<or> binary32_exponent x = - 126"
  proof (cases "binary32_exponent x = - 126")
    case True
    then show ?thesis by simp
  next
    case False
    then have "- 126 < binary32_exponent x"
      using exponent_ge [of x] by linarith
    then have "of_int 8388608 \<le> \<bar>x / binary32_ulp x\<bar>"
      using quot_lower [OF \<open>x \<noteq> 0\<close>] by simp
    then have "8388608 \<le> \<bar>?k\<bar>" by (rule rhe_abs_ge)
    then show ?thesis by simp
  qed
  show ?thesis
    unfolding f by (rule fl32_multiple [OF exponent_ge k n])
qed

lemma fl32_scaled:
  assumes "x \<noteq> 0"
  shows "fl32 x = of_int (round_half_even (x / binary32_ulp x)) * binary32_ulp x"
  using assms by (simp add: fl32_def)

lemma fl32_le_rep:
  assumes rep: "fl32 f = f" and le: "x \<le> f"
  shows "fl32 x \<le> f"
proof (cases "x = 0 \<or> f = 0")
  case True
  then show ?thesis
    using le fl32_nonpos [of x] by auto
next
  case False
  then have x0: "x \<noteq> 0" and f0: "f \<noteq> 0" by simp_all
  let ?ux = "binary32_ulp x" and ?uf = "binary32_ulp f"
  let ?kf = "round_half_even (f / ?uf)"
  have ff: "f = of_int ?kf * ?uf"
    using rep fl32_scaled [OF f0] by simp
  show ?thesis
  proof (cases "binary32_exponent x \<le> binary32_exponent f")
    case True
    define n where "n = nat (binary32_exponent f - binary32_exponent x)"
    have eq: "binary32_exponent f - 23 = (binary32_exponent x - 23) + int n"
      using True by (simp add: n_def)
    have "?uf = 2 powi (binary32_exponent x - 23) * 2 powi (int n)"
      unfolding binary32_ulp_def by (subst eq, rule power_int_add) simp
    then have uf: "?uf = of_int (2 ^ n) * ?ux"
      by (simp add: binary32_ulp_def power_int_of_nat)
    have fj: "f = of_int (?kf * 2 ^ n) * ?ux"
      by (subst ff, subst uf) simp
    have "x / ?ux \<le> f / ?ux"
      using le by (simp add: divide_right_mono)
    also have "f / ?ux = of_int (?kf * 2 ^ n)"
    proof -
      have ne: "?ux \<noteq> 0" using ulp_pos [of x] by linarith
      show ?thesis using fj ne by (metis nonzero_mult_div_cancel_right)
    qed
    finally have "round_half_even (x / ?ux) \<le> ?kf * 2 ^ n" by (rule rhe_le)
    then have "(of_int (round_half_even (x / ?ux)) :: real) \<le> of_int (?kf * 2 ^ n)"
      by (simp only: of_int_le_iff)
    then have "of_int (round_half_even (x / ?ux)) * ?ux \<le> of_int (?kf * 2 ^ n) * ?ux"
      by (rule mult_right_mono) simp
    with fj fl32_scaled [OF x0] show ?thesis by linarith
  next
    case False
    then have lt: "binary32_exponent f + 1 \<le> binary32_exponent x" by simp
    then have "- 126 < binary32_exponent x"
      using exponent_ge [of f] by linarith
    then have lo: "2 powi binary32_exponent x \<le> \<bar>x\<bar>"
      by (rule exponent_lower [OF x0])
    have "\<bar>f\<bar> < 2 powi (binary32_exponent f + 1)" by (rule exponent_upper [OF f0])
    also have "\<dots> \<le> 2 powi binary32_exponent x" using lt by (rule two_powi_mono)
    finally have fx: "\<bar>f\<bar> < 2 powi binary32_exponent x" .
    with lo le have neg: "x \<le> - (2 powi binary32_exponent x)" by linarith
    then have "x \<le> of_int (- 8388608) * ?ux" by (simp add: ulp_binade)
    then have "x / ?ux \<le> of_int (- 8388608)"
      by (simp add: pos_divide_le_eq)
    then have "round_half_even (x / ?ux) \<le> - 8388608" by (rule rhe_le)
    then have "(of_int (round_half_even (x / ?ux)) :: real) \<le> of_int (- 8388608)"
      by (simp only: of_int_le_iff)
    then have "of_int (round_half_even (x / ?ux)) * ?ux \<le> of_int (- 8388608) * ?ux"
      by (rule mult_right_mono) simp
    then have "fl32 x \<le> - (2 powi binary32_exponent x)"
      by (simp add: fl32_scaled [OF x0] ulp_binade)
    with fx show ?thesis by linarith
  qed
qed

lemma fl32_ge_rep:
  assumes "fl32 f = f" and "f \<le> x"
  shows "f \<le> fl32 x"
proof -
  have "fl32 (- f) = - f" using assms(1) by (simp add: fl32_minus)
  moreover have "- x \<le> - f" using assms(2) by simp
  ultimately have "fl32 (- x) \<le> - f" by (rule fl32_le_rep)
  then show ?thesis by (simp add: fl32_minus)
qed

lemma fl32_1 [simp]: "fl32 1 = 1"
  using fl32_multiple [of 0 8388608] by (simp add: two_powi_split(1) [of 0, simplified])

lemma fl32_abs_le_1:
  assumes "\<bar>x\<bar> \<le> 1"
  shows "\<bar>fl32 x\<bar> \<le> 1"
proof -
  have "fl32 x \<le> 1" using assms by (intro fl32_le_rep) simp_all
  moreover have "fl32 (- 1) = - 1" by (simp add: fl32_minus)
  then have "- 1 \<le> fl32 x" using assms by (intro fl32_ge_rep) simp_all
  ultimately show ?thesis by simp
qed

lemma exponent_1 [simp]: "binary32_exponent 1 = 0"
  by (rule exponent_eq) simp_all

lemma two_powi_m23: "(2::real) powi (- 23) = 1 / 8388608"
  using two_powi_split(1) [of 0] by simp

lemma fl32_err_unit:
  assumes "\<bar>x\<bar> \<le> 1"
  shows "\<bar>fl32 x - x\<bar> \<le> 1 / 16777216"
proof (cases "x = 0")
  case True
  then show ?thesis by simp
next
  case False
  let ?u = "binary32_ulp x" and ?k = "round_half_even (x / binary32_ulp x)"
  have "binary32_exponent x \<le> binary32_exponent 1"
    using False assms by (intro exponent_mono) simp_all
  then have "binary32_exponent x - 23 \<le> - 23" by simp
  then have u: "?u \<le> 1 / 8388608"
    unfolding binary32_ulp_def two_powi_m23 [symmetric] by (rule two_powi_mono)
  have ne: "?u \<noteq> 0" using ulp_pos [of x] by linarith
  have "fl32 x - x = (of_int ?k - x / ?u) * ?u"
    using ne by (simp add: fl32_scaled [OF False] left_diff_distrib)
  then have "\<bar>fl32 x - x\<bar> = \<bar>of_int ?k - x / ?u\<bar> * ?u"
    by (simp add: abs_mult)
  also have "\<dots> \<le> (1 / 2) * ?u"
    by (intro mult_right_mono rhe_err) simp
  also have "\<dots> \<le> (1 / 2) * (1 / 8388608)"
    using u by (intro mult_left_mono) simp_all
  finally show ?thesis by simp
qed

lemma fl32_near_one:
  assumes "1 \<le> y" "y \<le> 1 + 1 / 16777216"
  shows "fl32 y = 1"
proof -
  have "binary32_exponent y = 0"
    using assms by (intro exponent_eq) simp_all
  then have u: "binary32_ulp y = 1 / 8388608"
    by (simp add: binary32_ulp_def two_powi_m23)
  have fl: "\<lfloor>y * 8388608\<rfloor> = 8388608"
    using assms by (intro floor_unique) simp_all
  have r: "y * 8388608 - 8388608 \<le> 1 / 2" using assms by simp
  have "round_half_even (y * 8388608) = 8388608"
    using r by (simp add: round_half_even_def fl)
  then show ?thesis
    using assms by (simp add: fl32_def u)
qed

subsection \<open>Finite results of the operations\<close>

lemma FLT_MAX_ge_1: "1 \<le> FLT_MAX"
  by (simp add: FLT_MAX_def)

lemma round_f32_Fin:
  assumes "\<bar>fl32 x\<bar> \<le> FLT_MAX" and "fl32 x = 0 \<longrightarrow> \<not> negative"
  shows "round_f32 negative x = Fin (fl32 x)"
  using assms by (auto simp: round_f32_def Let_def)

lemma round_f32_finite:
  assumes "\<bar>fl32 x\<bar> \<le> FLT_MAX"
  shows "is_finite (round_f32 negative x)" and "val (round_f32 negative x) = fl32 x"
  using assms by (auto simp: round_f32_def Let_def)

lemma is_finite_cases:
  "is_finite v \<Longrightarrow> v \<noteq> NaN \<and> \<not> is_infinite v"
  by (cases v) simp_all

lemma f32_neg_finite:
  "is_finite v \<Longrightarrow> is_finite (f32_neg v) \<and> val (f32_neg v) = - val v"
  by (cases v) simp_all

lemma f32_add_finite:
  assumes "is_finite a" "is_finite b"
  shows "f32_add a b =
    round_f32 (if val a + val b = 0 then a = NegZero \<and> b = NegZero else val a + val b < 0)
      (val a + val b)"
  using is_finite_cases [OF assms(1)] is_finite_cases [OF assms(2)]
  by (simp add: f32_add_def Let_def)

lemma f32_mul_finite:
  assumes "is_finite a" "is_finite b"
  shows "f32_mul a b = round_f32 (sign_bit a \<noteq> sign_bit b) (val a * val b)"
  using is_finite_cases [OF assms(1)] is_finite_cases [OF assms(2)]
  by (simp add: f32_mul_def)

lemma unit_f32_D:
  assumes "unit_f32 v"
  obtains x where "v = Fin x" "fl32 x = x" "0 \<le> x" "x \<le> 1"
  using assms by (cases v) simp_all

lemma Lerp_unit:
  assumes "unit_f32 a" "unit_f32 b" "unit_f32 p"
  shows "unit_f32 (FMath_Lerp a b p)"
proof -
  from assms(1) obtain x where a: "a = Fin x" and rx: "fl32 x = x" and x: "0 \<le> x" "x \<le> 1"
    by (rule unit_f32_D)
  from assms(2) obtain y where b: "b = Fin y" and y: "0 \<le> y" "y \<le> 1"
    by (rule unit_f32_D)
  from assms(3) obtain q where p: "p = Fin q" and q: "0 \<le> q" "q \<le> 1"
    by (rule unit_f32_D)
  define d where "d = fl32 (y - x)"
  define D where "D = f32_sub b a"
  have yx: "\<bar>y - x\<bar> \<le> 1" using x y by simp
  have d1: "\<bar>d\<bar> \<le> 1" unfolding d_def by (rule fl32_abs_le_1 [OF yx])
  have nf: "is_finite (f32_neg a)" "val (f32_neg a) = - x"
    using f32_neg_finite [of a] by (simp_all add: a)
  have D_eq: "D = round_f32 (if y + - x = 0 then b = NegZero \<and> f32_neg a = NegZero
      else y + - x < 0) (y + - x)"
    unfolding D_def f32_sub_def using f32_add_finite [of b "f32_neg a"] nf by (simp add: b)
  have "\<bar>fl32 (y + - x)\<bar> \<le> FLT_MAX"
    using d1 FLT_MAX_ge_1 by (simp add: d_def)
  then have Df: "is_finite D" and Dv: "val D = d"
    unfolding D_eq d_def by (simp_all add: round_f32_finite)
  have d_lo: "- x \<le> d"
    unfolding d_def using y rx by (intro fl32_ge_rep) (simp_all add: fl32_minus)
  have d_hi: "d \<le> 1 - x + 1 / 16777216"
    using fl32_err_unit [OF yx] y unfolding d_def by linarith
  define m where "m = fl32 (q * d)"
  define M where "M = f32_mul p D"
  have qd: "\<bar>q * d\<bar> \<le> 1"
  proof -
    have "\<bar>q * d\<bar> = q * \<bar>d\<bar>" using q by (simp add: abs_mult)
    also have "\<dots> \<le> 1 * 1" using q d1 by (intro mult_mono) simp_all
    finally show ?thesis by simp
  qed
  have m1: "\<bar>m\<bar> \<le> 1" unfolding m_def by (rule fl32_abs_le_1 [OF qd])
  have "M = round_f32 (sign_bit p \<noteq> sign_bit D) (q * d)"
    unfolding M_def using f32_mul_finite [of p D] Df Dv by (simp add: p)
  moreover have "\<bar>fl32 (q * d)\<bar> \<le> FLT_MAX" using m1 FLT_MAX_ge_1 by (simp add: m_def)
  ultimately have Mf: "is_finite M" and Mv: "val M = m"
    by (simp_all add: round_f32_finite m_def)
  have rd: "fl32 d = d" by (simp add: d_def)
  have m_lo: "- x \<le> m" and m_hi: "m \<le> 1 - x + 1 / 16777216"
  proof -
    show "- x \<le> m"
    proof (cases "0 \<le> d")
      case True
      then have "0 \<le> q * d" using q by simp
      then have "0 \<le> m" unfolding m_def by (rule fl32_nonneg)
      with x show ?thesis by simp
    next
      case False
      then have "d \<le> q * d" using q by (simp add: mult_le_cancel_right1)
      then have "d \<le> m" unfolding m_def using rd by (intro fl32_ge_rep)
      with d_lo show ?thesis by simp
    qed
    show "m \<le> 1 - x + 1 / 16777216"
    proof (cases "0 \<le> d")
      case True
      then have "q * d \<le> d" using mult_right_mono [of q 1 d] q by simp
      then have "m \<le> d" unfolding m_def using rd by (intro fl32_le_rep)
      with d_hi show ?thesis by simp
    next
      case False
      then have "q * d \<le> 0" using q by (simp add: mult_nonneg_nonpos)
      then have "m \<le> 0" unfolding m_def by (rule fl32_nonpos)
      with x show ?thesis by simp
    qed
  qed
  define r where "r = fl32 (x + m)"
  have s0: "0 \<le> x + m" using m_lo by simp
  have r0: "0 \<le> r" unfolding r_def by (rule fl32_nonneg [OF s0])
  have r1: "r \<le> 1"
  proof (cases "x + m \<le> 1")
    case True
    then show ?thesis unfolding r_def by (intro fl32_le_rep) simp_all
  next
    case False
    then have "fl32 (x + m) = 1" using m_hi by (intro fl32_near_one) simp_all
    then show ?thesis by (simp add: r_def)
  qed
  have "FMath_Lerp a b p = f32_add a M"
    by (simp add: FMath_Lerp_def M_def D_def)
  also have "\<dots> = round_f32 (if x + m = 0 then a = NegZero \<and> M = NegZero else x + m < 0) (x + m)"
    using f32_add_finite [of a M] Mf Mv by (simp add: a)
  also have "\<dots> = Fin r"
    unfolding r_def using r0 r1 FLT_MAX_ge_1 s0
    by (intro round_f32_Fin) (auto simp: a r_def)
  finally have "FMath_Lerp a b p = Fin r" .
  then show ?thesis using r0 r1 by (simp add: r_def)
qed

subsection \<open>The state after an operation\<close>

lemma SendControlUpdate_fields [simp]:
  "CurrentContext (SendControlUpdate s) = CurrentContext s"
  "TargetContext (SendControlUpdate s) = TargetContext s"
  "TransitionAlpha (SendControlUpdate s) = TransitionAlpha s"
  "TransitionDuration (SendControlUpdate s) = TransitionDuration s"
  "bIsConnected (SendControlUpdate s) = bIsConnected s"
  "WebSocket (SendControlUpdate s) = WebSocket s"
  by (simp_all add: SendControlUpdate_def UE_LOG_def call_ws_def Let_def split: option.splits)

lemma dec_digits_small: "n < 10 \<Longrightarrow> dec_digits n = [digit_char n]"
  by (simp add: dec_digits.simps)

lemma connecting_eq:
  "connecting = UStaticWavesMusicSubsystem
     \<lparr>WebSocket := Some 0, ServerURL := ''ws://localhost:8765'', WebSocketsLoaded := True,
      net := [CreateWebSocket 0 ''ws://localhost:8765'', BindCallbacks 0, WsConnect 0],
      logs := [(Log, ''[StaticWaves] Connecting to ws://localhost:8765...'')]\<rparr>"
  by (simp add: connecting_def Connect_def UE_LOG_def call_ws_def fresh_socket_def
      UStaticWavesMusicSubsystem_def Let_def)

lemma connecting_fields [simp]:
  "WebSocket connecting = Some 0"
  "bIsConnected connecting = False"
  "CurrentContext connecting = FMusicContext_default"
  "TargetContext connecting = FMusicContext_default"
  "TransitionAlpha connecting = Fin 1"
  "TransitionDuration connecting = Fin 1"
  "net connecting = [CreateWebSocket 0 ''ws://localhost:8765'', BindCallbacks 0, WsConnect 0]"
  by (simp_all add: connecting_eq UStaticWavesMusicSubsystem_def)

lemma sends_append: "sends (xs @ ys) = sends xs @ sends ys"
  by (induction xs rule: sends.induct) simp_all

lemma SendControlUpdate_offline:
  "\<not> bIsConnected s \<Longrightarrow> SendControlUpdate s = s"
  by (simp add: SendControlUpdate_def)

lemma TransitionToContext_link [simp]:
  "bIsConnected (TransitionToContext c t s) = bIsConnected s"
  "WebSocket (TransitionToContext c t s) = WebSocket s"
  "net (TransitionToContext c t s) = net s"
  by (simp_all add: TransitionToContext_def)

lemma exec_offline:
  assumes "\<not> bIsConnected s" "context_op x"
  shows "\<not> bIsConnected (exec x s) \<and> WebSocket (exec x s) = WebSocket s \<and>
         net (exec x s) = net s"
  using assms
  by (cases x)
     (simp_all add: SetMusicContext_def Tick_def SendControlUpdate_offline Let_def
        SetExploration_def SetCombat_def SetBoss_def SetPuzzle_def SetVictory_def
        PushMusicEvent_def)

lemma run_offline:
  assumes "\<not> bIsConnected s" "list_all context_op ops"
  shows "\<not> bIsConnected (run ops s) \<and> WebSocket (run ops s) = WebSocket s \<and>
         net (run ops s) = net s"
  using assms
proof (induction ops arbitrary: s)
  case Nil
  then show ?case by simp
next
  case (Cons x xs)
  from Cons.prems have e: "\<not> bIsConnected (exec x s) \<and>
      WebSocket (exec x s) = WebSocket s \<and> net (exec x s) = net s"
    by (simp add: exec_offline)
  from Cons.prems have "list_all context_op xs" by simp
  with e Cons.IH [of "exec x s"] show ?case by simp
qed

lemma net_SendControlUpdate:
  "net (SendControlUpdate s) =
     net s @ (case WebSocket s of
                Some w \<Rightarrow> if bIsConnected s then [WsSend w (ToJson (CurrentContext s))] else []
              | None \<Rightarrow> [])"
  by (simp add: SendControlUpdate_def UE_LOG_def call_ws_def Let_def split: option.splits)

lemma FMusicContext_updates:
  "c\<lparr>Energy := e, Tension := t, Darkness := d, Complexity := x\<rparr> =
     \<lparr>Energy = e, Tension = t, Darkness = d, Complexity = x\<rparr>"
  by (cases c) simp

lemma Tick_moved:
  "Tick dt s =
     (if f32_less (TransitionAlpha s) (Fin 1)
      then SendControlUpdate
             (moved (FMath_Clamp (f32_add (TransitionAlpha s) (f32_div dt (TransitionDuration s)))
                (Fin 0) (Fin 1)) s)
      else s)"
  by (simp add: Tick_def Let_def moved_def FMusicContext_updates)

lemma moved_fields [simp]:
  "WebSocket (moved p s) = WebSocket s"
  "bIsConnected (moved p s) = bIsConnected s"
  "net (moved p s) = net s"
  "TargetContext (moved p s) = TargetContext s"
  "TransitionAlpha (moved p s) = p"
  by (simp_all add: moved_def)

subsection \<open>The example runs, evaluated\<close>

text \<open>
  Every binary32 operation that occurs in the example runs below, with its rounded
  result. Each line is proved from the definition of the rounding: the binade of the
  exact result and the integer its quotient by the unit in the last place rounds to
  are given, and checked.
\<close>

lemma round_f32_eval:
  assumes "2 powi e = lo" "lo \<le> \<bar>x\<bar>" "\<bar>x\<bar> < 2 * lo" "- 126 \<le> e"
    and "2 powi (e - 23) = u" and "round_half_even (x / u) = n"
    and "n \<noteq> 0" and "\<bar>of_int n * u\<bar> \<le> FLT_MAX"
  shows "round_f32 negative x = Fin (of_int n * u)"
proof -
  have "(0::real) < 2 powi e" by simp
  with assms(1,2) have x0: "x \<noteq> 0" by auto
  have "binary32_exponent x = e"
    using assms(1,2,3,4) by (intro exponent_eq) (simp_all add: two_powi_Suc)
  with assms(5) have "binary32_ulp x = u" by (simp add: binary32_ulp_def)
  with x0 assms(6) have f: "fl32 x = of_int n * u" by (simp add: fl32_def)
  have "(0::real) < 2 powi (e - 23)" by simp
  with assms(5,7) have "of_int n * u \<noteq> 0" by auto
  with f assms(8) show ?thesis by (simp add: round_f32_def Let_def)
qed

lemma powi_vals:
  "(2::real) powi (- 53) = 1 / 9007199254740992"
  "(2::real) powi (- 30) = 1 / 1073741824"
  "(2::real) powi (- 29) = 1 / 536870912"
  "(2::real) powi (- 28) = 1 / 268435456"
  "(2::real) powi (- 27) = 1 / 134217728"
  "(2::real) powi (- 26) = 1 / 67108864"
  "(2::real) powi (- 25) = 1 / 33554432"
  "(2::real) powi (- 24) = 1 / 16777216"
  "(2::real) powi (- 23) = 1 / 8388608"
  "(2::real) powi (- 21) = 1 / 2097152"
  "(2::real) powi (- 7) = 1 / 128"
  "(2::real) powi (- 6) = 1 / 64"
  "(2::real) powi (- 5) = 1 / 32"
  "(2::real) powi (- 4) = 1 / 16"
  "(2::real) powi (- 3) = 1 / 8"
  "(2::real) powi (- 2) = 1 / 4"
  "(2::real) powi (- 1) = 1 / 2"
  "(2::real) powi 0 = 1"
  "(2::real) powi 2 = 4"
  by (simp_all add: power_int_minus inverse_eq_divide)

lemma ev_lit_0: "f32_lit (9 / 10) = Fin (7549747 / 8388608)"
  using round_f32_eval [of "- 1" "1 / 2" "9 / 10" "1 / 16777216" "15099494" False]
  by (simp add: f32_lit_def round_half_even_def powi_vals Let_def FLT_MAX_def)

lemma ev_lit_1: "f32_lit (4 / 5) = Fin (13421773 / 16777216)"
  using round_f32_eval [of "- 1" "1 / 2" "4 / 5" "1 / 16777216" "13421773" False]
  by (simp add: f32_lit_def round_half_even_def powi_vals Let_def FLT_MAX_def)

lemma ev_lit_2: "f32_lit (3 / 5) = Fin (5033165 / 8388608)"
  using round_f32_eval [of "- 1" "1 / 2" "3 / 5" "1 / 16777216" "10066330" False]
  by (simp add: f32_lit_def round_half_even_def powi_vals Let_def FLT_MAX_def)

lemma ev_lit_3: "f32_lit (7 / 10) = Fin (11744051 / 16777216)"
  using round_f32_eval [of "- 1" "1 / 2" "7 / 10" "1 / 16777216" "11744051" False]
  by (simp add: f32_lit_def round_half_even_def powi_vals Let_def FLT_MAX_def)

lemma ev_lit_4: "f32_lit (3 / 10) = Fin (5033165 / 16777216)"
  using round_f32_eval [of "- 2" "1 / 4" "3 / 10" "1 / 33554432" "10066330" False]
  by (simp add: f32_lit_def round_half_even_def powi_vals Let_def FLT_MAX_def)

lemma ev_lit_5: "f32_lit (1 / 10) = Fin (13421773 / 134217728)"
  using round_f32_eval [of "- 4" "1 / 16" "1 / 10" "1 / 134217728" "13421773" False]
  by (simp add: f32_lit_def round_half_even_def powi_vals Let_def FLT_MAX_def)

lemma ev_lit_6: "f32_lit (1 / 5) = Fin (13421773 / 67108864)"
  using round_f32_eval [of "- 3" "1 / 8" "1 / 5" "1 / 67108864" "13421773" False]
  by (simp add: f32_lit_def round_half_even_def powi_vals Let_def FLT_MAX_def)

lemma ev_lit_7: "f32_lit (2 / 5) = Fin (13421773 / 33554432)"
  using round_f32_eval [of "- 2" "1 / 4" "2 / 5" "1 / 33554432" "13421773" False]
  by (simp add: f32_lit_def round_half_even_def powi_vals Let_def FLT_MAX_def)

lemma ev_lit_8: "f32_lit (19 / 20) = Fin (15938355 / 16777216)"
  using round_f32_eval [of "- 1" "1 / 2" "19 / 20" "1 / 16777216" "15938355" False]
  by (simp add: f32_lit_def round_half_even_def powi_vals Let_def FLT_MAX_def)

lemma ev_div_9: "f32_div (Fin (1 / 4)) (Fin 1) = Fin (1 / 4)"
  using round_f32_eval [of "- 2" "1 / 4" "1 / 4" "1 / 33554432" "8388608" False]
  by (simp add: f32_div_def is_zero_def round_half_even_def powi_vals Let_def FLT_MAX_def)

lemma ev_add_10: "f32_add (Fin 0) (Fin (1 / 4)) = Fin (1 / 4)"
  using round_f32_eval [of "- 2" "1 / 4" "1 / 4" "1 / 33554432" "8388608" False]
  by (simp add: f32_add_def round_half_even_def powi_vals Let_def FLT_MAX_def)

lemma ev_sub_11: "f32_sub (Fin (7549747 / 8388608)) (Fin (1 / 2)) = Fin (3355443 / 8388608)"
  using round_f32_eval [of "- 2" "1 / 4" "3355443 / 8388608" "1 / 33554432" "13421772" False]
  by (simp add: f32_sub_def f32_add_def round_half_even_def powi_vals Let_def FLT_MAX_def)

lemma ev_mul_12: "f32_mul (Fin (1 / 4)) (Fin (3355443 / 8388608)) = Fin (3355443 / 33554432)"
  using round_f32_eval [of "- 4" "1 / 16" "3355443 / 33554432" "1 / 134217728" "13421772" False]
  by (simp add: f32_mul_def round_half_even_def powi_vals Let_def FLT_MAX_def)

lemma ev_add_13: "f32_add (Fin (1 / 2)) (Fin (3355443 / 33554432)) = Fin (5033165 / 8388608)"
  using round_f32_eval [of "- 1" "1 / 2" "20132659 / 33554432" "1 / 16777216" "10066330" False]
  by (simp add: f32_add_def round_half_even_def powi_vals Let_def FLT_MAX_def)

lemma ev_sub_14: "f32_sub (Fin (13421773 / 16777216)) (Fin (1 / 2)) = Fin (5033165 / 16777216)"
  using round_f32_eval [of "- 2" "1 / 4" "5033165 / 16777216" "1 / 33554432" "10066330" False]
  by (simp add: f32_sub_def f32_add_def round_half_even_def powi_vals Let_def FLT_MAX_def)

lemma ev_mul_15: "f32_mul (Fin (1 / 4)) (Fin (5033165 / 16777216)) = Fin (5033165 / 67108864)"
  using round_f32_eval [of "- 4" "1 / 16" "5033165 / 67108864" "1 / 134217728" "10066330" False]
  by (simp add: f32_mul_def round_half_even_def powi_vals Let_def FLT_MAX_def)

lemma ev_add_16: "f32_add (Fin (1 / 2)) (Fin (5033165 / 67108864)) = Fin (9646899 / 16777216)"
  using round_f32_eval [of "- 1" "1 / 2" "38587597 / 67108864" "1 / 16777216" "9646899" False]
  by (simp add: f32_add_def round_half_even_def powi_vals Let_def FLT_MAX_def)

lemma ev_sub_17: "f32_sub (Fin (5033165 / 8388608)) (Fin (1 / 2)) = Fin (838861 / 8388608)"
  using round_f32_eval [of "- 4" "1 / 16" "838861 / 8388608" "1 / 134217728" "13421776" False]
  by (simp add: f32_sub_def f32_add_def round_half_even_def powi_vals Let_def FLT_MAX_def)

lemma ev_mul_18: "f32_mul (Fin (1 / 4)) (Fin (838861 / 8388608)) = Fin (838861 / 33554432)"
  using round_f32_eval [of "- 6" "1 / 64" "838861 / 33554432" "1 / 536870912" "13421776" False]
  by (simp add: f32_mul_def round_half_even_def powi_vals Let_def FLT_MAX_def)

lemma ev_add_19: "f32_add (Fin (1 / 2)) (Fin (838861 / 33554432)) = Fin (4404019 / 8388608)"
  using round_f32_eval [of "- 1" "1 / 2" "17616077 / 33554432" "1 / 16777216" "8808038" False]
  by (simp add: f32_add_def round_half_even_def powi_vals Let_def FLT_MAX_def)

lemma ev_sub_20: "f32_sub (Fin (11744051 / 16777216)) (Fin (1 / 2)) = Fin (3355443 / 16777216)"
  using round_f32_eval [of "- 3" "1 / 8" "3355443 / 16777216" "1 / 67108864" "13421772" False]
  by (simp add: f32_sub_def f32_add_def round_half_even_def powi_vals Let_def FLT_MAX_def)

lemma ev_mul_21: "f32_mul (Fin (1 / 4)) (Fin (3355443 / 16777216)) = Fin (3355443 / 67108864)"
  using round_f32_eval [of "- 5" "1 / 32" "3355443 / 67108864" "1 / 268435456" "13421772" False]
  by (simp add: f32_mul_def round_half_even_def powi_vals Let_def FLT_MAX_def)

lemma ev_add_22: "f32_add (Fin (1 / 2)) (Fin (3355443 / 67108864)) = Fin (9227469 / 16777216)"
  using round_f32_eval [of "- 1" "1 / 2" "36909875 / 67108864" "1 / 16777216" "9227469" False]
  by (simp add: f32_add_def round_half_even_def powi_vals Let_def FLT_MAX_def)

lemma ev_add_23: "f32_add (Fin (1 / 4)) (Fin (1 / 4)) = Fin (1 / 2)"
  using round_f32_eval [of "- 1" "1 / 2" "1 / 2" "1 / 16777216" "8388608" False]
  by (simp add: f32_add_def round_half_even_def powi_vals Let_def FLT_MAX_def)

lemma ev_sub_24: "f32_sub (Fin (7549747 / 8388608)) (Fin (5033165 / 8388608)) = Fin (1258291 / 4194304)"
  using round_f32_eval [of "- 2" "1 / 4" "1258291 / 4194304" "1 / 33554432" "10066328" False]
  by (simp add: f32_sub_def f32_add_def round_half_even_def powi_vals Let_def FLT_MAX_def)

lemma ev_mul_25: "f32_mul (Fin (1 / 2)) (Fin (1258291 / 4194304)) = Fin (1258291 / 8388608)"
  using round_f32_eval [of "- 3" "1 / 8" "1258291 / 8388608" "1 / 67108864" "10066328" False]
  by (simp add: f32_mul_def round_half_even_def powi_vals Let_def FLT_MAX_def)

lemma ev_add_26: "f32_add (Fin (5033165 / 8388608)) (Fin (1258291 / 8388608)) = Fin (3 / 4)"
  using round_f32_eval [of "- 1" "1 / 2" "3 / 4" "1 / 16777216" "12582912" False]
  by (simp add: f32_add_def round_half_even_def powi_vals Let_def FLT_MAX_def)

lemma ev_sub_27: "f32_sub (Fin (13421773 / 16777216)) (Fin (9646899 / 16777216)) = Fin (1887437 / 8388608)"
  using round_f32_eval [of "- 3" "1 / 8" "1887437 / 8388608" "1 / 67108864" "15099496" False]
  by (simp add: f32_sub_def f32_add_def round_half_even_def powi_vals Let_def FLT_MAX_def)

lemma ev_mul_28: "f32_mul (Fin (1 / 2)) (Fin (1887437 / 8388608)) = Fin (1887437 / 16777216)"
  using round_f32_eval [of "- 4" "1 / 16" "1887437 / 16777216" "1 / 134217728" "15099496" False]
  by (simp add: f32_mul_def round_half_even_def powi_vals Let_def FLT_MAX_def)

lemma ev_add_29: "f32_add (Fin (9646899 / 16777216)) (Fin (1887437 / 16777216)) = Fin (11 / 16)"
  using round_f32_eval [of "- 1" "1 / 2" "11 / 16" "1 / 16777216" "11534336" False]
  by (simp add: f32_add_def round_half_even_def powi_vals Let_def FLT_MAX_def)

lemma ev_sub_30: "f32_sub (Fin (5033165 / 8388608)) (Fin (4404019 / 8388608)) = Fin (314573 / 4194304)"
  using round_f32_eval [of "- 4" "1 / 16" "314573 / 4194304" "1 / 134217728" "10066336" False]
  by (simp add: f32_sub_def f32_add_def round_half_even_def powi_vals Let_def FLT_MAX_def)

lemma ev_mul_31: "f32_mul (Fin (1 / 2)) (Fin (314573 / 4194304)) = Fin (314573 / 8388608)"
  using round_f32_eval [of "- 5" "1 / 32" "314573 / 8388608" "1 / 268435456" "10066336" False]
  by (simp add: f32_mul_def round_half_even_def powi_vals Let_def FLT_MAX_def)

lemma ev_add_32: "f32_add (Fin (4404019 / 8388608)) (Fin (314573 / 8388608)) = Fin (9 / 16)"
  using round_f32_eval [of "- 1" "1 / 2" "9 / 16" "1 / 16777216" "9437184" False]
  by (simp add: f32_add_def round_half_even_def powi_vals Let_def FLT_MAX_def)

lemma ev_sub_33: "f32_sub (Fin (11744051 / 16777216)) (Fin (9227469 / 16777216)) = Fin (1258291 / 8388608)"
  using round_f32_eval [of "- 3" "1 / 8" "1258291 / 8388608" "1 / 67108864" "10066328" False]
  by (simp add: f32_sub_def f32_add_def round_half_even_def powi_vals Let_def FLT_MAX_def)

lemma ev_mul_34: "f32_mul (Fin (1 / 2)) (Fin (1258291 / 8388608)) = Fin (1258291 / 16777216)"
  using round_f32_eval [of "- 4" "1 / 16" "1258291 / 16777216" "1 / 134217728" "10066328" False]
  by (simp add: f32_mul_def round_half_even_def powi_vals Let_def FLT_MAX_def)

lemma ev_add_35: "f32_add (Fin (9227469 / 16777216)) (Fin (1258291 / 16777216)) = Fin (5 / 8)"
  using round_f32_eval [of "- 1" "1 / 2" "5 / 8" "1 / 16777216" "10485760" False]
  by (simp add: f32_add_def round_half_even_def powi_vals Let_def FLT_MAX_def)

lemma ev_div_36: "f32_div (Fin 0) (Fin 1) = Fin 0"
  by (simp add: f32_div_def is_zero_def round_f32_def FLT_MAX_def Let_def)

lemma ev_add_37: "f32_add (Fin (1 / 4)) (Fin 0) = Fin (1 / 4)"
  using round_f32_eval [of "- 2" "1 / 4" "1 / 4" "1 / 33554432" "8388608" False]
  by (simp add: f32_add_def round_half_even_def powi_vals Let_def FLT_MAX_def)

lemma ev_mul_38: "f32_mul (Fin (1 / 4)) (Fin (1258291 / 4194304)) = Fin (1258291 / 16777216)"
  using round_f32_eval [of "- 4" "1 / 16" "1258291 / 16777216" "1 / 134217728" "10066328" False]
  by (simp add: f32_mul_def round_half_even_def powi_vals Let_def FLT_MAX_def)

lemma ev_add_39: "f32_add (Fin (5033165 / 8388608)) (Fin (1258291 / 16777216)) = Fin (11324621 / 16777216)"
  using round_f32_eval [of "- 1" "1 / 2" "11324621 / 16777216" "1 / 16777216" "11324621" False]
  by (simp add: f32_add_def round_half_even_def powi_vals Let_def FLT_MAX_def)

lemma ev_mul_40: "f32_mul (Fin (1 / 4)) (Fin (1887437 / 8388608)) = Fin (1887437 / 33554432)"
  using round_f32_eval [of "- 5" "1 / 32" "1887437 / 33554432" "1 / 268435456" "15099496" False]
  by (simp add: f32_mul_def round_half_even_def powi_vals Let_def FLT_MAX_def)

lemma ev_add_41: "f32_add (Fin (9646899 / 16777216)) (Fin (1887437 / 33554432)) = Fin (5295309 / 8388608)"
  using round_f32_eval [of "- 1" "1 / 2" "21181235 / 33554432" "1 / 16777216" "10590618" False]
  by (simp add: f32_add_def round_half_even_def powi_vals Let_def FLT_MAX_def)

lemma ev_mul_42: "f32_mul (Fin (1 / 4)) (Fin (314573 / 4194304)) = Fin (314573 / 16777216)"
  using round_f32_eval [of "- 6" "1 / 64" "314573 / 16777216" "1 / 536870912" "10066336" False]
  by (simp add: f32_mul_def round_half_even_def powi_vals Let_def FLT_MAX_def)

lemma ev_add_43: "f32_add (Fin (4404019 / 8388608)) (Fin (314573 / 16777216)) = Fin (9122611 / 16777216)"
  using round_f32_eval [of "- 1" "1 / 2" "9122611 / 16777216" "1 / 16777216" "9122611" False]
  by (simp add: f32_add_def round_half_even_def powi_vals Let_def FLT_MAX_def)

lemma ev_mul_44: "f32_mul (Fin (1 / 4)) (Fin (1258291 / 8388608)) = Fin (1258291 / 33554432)"
  using round_f32_eval [of "- 5" "1 / 32" "1258291 / 33554432" "1 / 268435456" "10066328" False]
  by (simp add: f32_mul_def round_half_even_def powi_vals Let_def FLT_MAX_def)

lemma ev_add_45: "f32_add (Fin (9227469 / 16777216)) (Fin (1258291 / 33554432)) = Fin (4928307 / 8388608)"
  using round_f32_eval [of "- 1" "1 / 2" "19713229 / 33554432" "1 / 16777216" "9856614" False]
  by (simp add: f32_add_def round_half_even_def powi_vals Let_def FLT_MAX_def)

lemma ev_div_46: "f32_div (Fin (- (1 / 8))) (Fin 1) = Fin (- (1 / 8))"
  using round_f32_eval [of "- 3" "1 / 8" "- (1 / 8)" "1 / 67108864" "- 8388608" True]
  by (simp add: f32_div_def is_zero_def round_half_even_def powi_vals Let_def FLT_MAX_def)

lemma ev_add_47: "f32_add (Fin (1 / 4)) (Fin (- (1 / 8))) = Fin (1 / 8)"
  using round_f32_eval [of "- 3" "1 / 8" "1 / 8" "1 / 67108864" "8388608" False]
  by (simp add: f32_add_def round_half_even_def powi_vals Let_def FLT_MAX_def)

lemma ev_mul_48: "f32_mul (Fin (1 / 8)) (Fin (1258291 / 4194304)) = Fin (1258291 / 33554432)"
  using round_f32_eval [of "- 5" "1 / 32" "1258291 / 33554432" "1 / 268435456" "10066328" False]
  by (simp add: f32_mul_def round_half_even_def powi_vals Let_def FLT_MAX_def)

lemma ev_add_49: "f32_add (Fin (5033165 / 8388608)) (Fin (1258291 / 33554432)) = Fin (2673869 / 4194304)"
  using round_f32_eval [of "- 1" "1 / 2" "21390951 / 33554432" "1 / 16777216" "10695476" False]
  by (simp add: f32_add_def round_half_even_def powi_vals Let_def FLT_MAX_def)

lemma ev_mul_50: "f32_mul (Fin (1 / 8)) (Fin (1887437 / 8388608)) = Fin (1887437 / 67108864)"
  using round_f32_eval [of "- 6" "1 / 64" "1887437 / 67108864" "1 / 536870912" "15099496" False]
  by (simp add: f32_mul_def round_half_even_def powi_vals Let_def FLT_MAX_def)

lemma ev_add_51: "f32_add (Fin (9646899 / 16777216)) (Fin (1887437 / 67108864)) = Fin (5059379 / 8388608)"
  using round_f32_eval [of "- 1" "1 / 2" "40475033 / 67108864" "1 / 16777216" "10118758" False]
  by (simp add: f32_add_def round_half_even_def powi_vals Let_def FLT_MAX_def)

lemma ev_mul_52: "f32_mul (Fin (1 / 8)) (Fin (314573 / 4194304)) = Fin (314573 / 33554432)"
  using round_f32_eval [of "- 7" "1 / 128" "314573 / 33554432" "1 / 1073741824" "10066336" False]
  by (simp add: f32_mul_def round_half_even_def powi_vals Let_def FLT_MAX_def)

lemma ev_add_53: "f32_add (Fin (4404019 / 8388608)) (Fin (314573 / 33554432)) = Fin (2241331 / 4194304)"
  using round_f32_eval [of "- 1" "1 / 2" "17930649 / 33554432" "1 / 16777216" "8965324" False]
  by (simp add: f32_add_def round_half_even_def powi_vals Let_def FLT_MAX_def)

lemma ev_mul_54: "f32_mul (Fin (1 / 8)) (Fin (1258291 / 8388608)) = Fin (1258291 / 67108864)"
  using round_f32_eval [of "- 6" "1 / 64" "1258291 / 67108864" "1 / 536870912" "10066328" False]
  by (simp add: f32_mul_def round_half_even_def powi_vals Let_def FLT_MAX_def)

lemma ev_add_55: "f32_add (Fin (9227469 / 16777216)) (Fin (1258291 / 67108864)) = Fin (4771021 / 8388608)"
  using round_f32_eval [of "- 1" "1 / 2" "38168167 / 67108864" "1 / 16777216" "9542042" False]
  by (simp add: f32_add_def round_half_even_def powi_vals Let_def FLT_MAX_def)

lemma ev_div_56: "f32_div (Fin (- (1 / 1073741824))) (Fin 1) = Fin (- (1 / 1073741824))"
  using round_f32_eval [of "- 30" "1 / 1073741824" "- (1 / 1073741824)" "1 / 9007199254740992" "- 8388608" True]
  by (simp add: f32_div_def is_zero_def round_half_even_def powi_vals Let_def FLT_MAX_def)

lemma ev_add_57: "f32_add (Fin (1 / 4)) (Fin (- (1 / 1073741824))) = Fin (1 / 4)"
  using round_f32_eval [of "- 3" "1 / 8" "268435455 / 1073741824" "1 / 67108864" "16777216" False]
  by (simp add: f32_add_def round_half_even_def powi_vals Let_def FLT_MAX_def)

lemma ev_div_58: "f32_div (Fin (- 5)) (Fin 1) = Fin (- 5)"
  using round_f32_eval [of "2" "4" "- 5" "1 / 2097152" "- 10485760" True]
  by (simp add: f32_div_def is_zero_def round_half_even_def powi_vals Let_def FLT_MAX_def)

lemma ev_add_59: "f32_add (Fin (1 / 4)) (Fin (- 5)) = Fin (- (19 / 4))"
  using round_f32_eval [of "2" "4" "- (19 / 4)" "1 / 2097152" "- 9961472" True]
  by (simp add: f32_add_def round_half_even_def powi_vals Let_def FLT_MAX_def)

lemma ev_mul_60: "f32_mul (Fin 0) (Fin (1258291 / 4194304)) = Fin 0"
  by (simp add: f32_mul_def round_f32_def FLT_MAX_def Let_def)

lemma ev_add_61: "f32_add (Fin (5033165 / 8388608)) (Fin 0) = Fin (5033165 / 8388608)"
  using round_f32_eval [of "- 1" "1 / 2" "5033165 / 8388608" "1 / 16777216" "10066330" False]
  by (simp add: f32_add_def round_half_even_def powi_vals Let_def FLT_MAX_def)

lemma ev_mul_62: "f32_mul (Fin 0) (Fin (1887437 / 8388608)) = Fin 0"
  by (simp add: f32_mul_def round_f32_def FLT_MAX_def Let_def)

lemma ev_add_63: "f32_add (Fin (9646899 / 16777216)) (Fin 0) = Fin (9646899 / 16777216)"
  using round_f32_eval [of "- 1" "1 / 2" "9646899 / 16777216" "1 / 16777216" "9646899" False]
  by (simp add: f32_add_def round_half_even_def powi_vals Let_def FLT_MAX_def)

lemma ev_mul_64: "f32_mul (Fin 0) (Fin (314573 / 4194304)) = Fin 0"
  by (simp add: f32_mul_def round_f32_def FLT_MAX_def Let_def)

lemma ev_add_65: "f32_add (Fin (4404019 / 8388608)) (Fin 0) = Fin (4404019 / 8388608)"
  using round_f32_eval [of "- 1" "1 / 2" "4404019 / 8388608" "1 / 16777216" "8808038" False]
  by (simp add: f32_add_def round_half_even_def powi_vals Let_def FLT_MAX_def)

lemma ev_mul_66: "f32_mul (Fin 0) (Fin (1258291 / 8388608)) = Fin 0"
  by (simp add: f32_mul_def round_f32_def FLT_MAX_def Let_def)

lemma ev_add_67: "f32_add (Fin (9227469 / 16777216)) (Fin 0) = Fin (9227469 / 16777216)"
  using round_f32_eval [of "- 1" "1 / 2" "9227469 / 16777216" "1 / 16777216" "9227469" False]
  by (simp add: f32_add_def round_half_even_def powi_vals Let_def FLT_MAX_def)

lemma ev_div_68: "f32_div (Fin (1 / 2)) (Fin 1) = Fin (1 / 2)"
  using round_f32_eval [of "- 1" "1 / 2" "1 / 2" "1 / 16777216" "8388608" False]
  by (simp add: f32_div_def is_zero_def round_half_even_def powi_vals Let_def FLT_MAX_def)

lemma ev_add_69: "f32_add (Fin 0) (Fin (1 / 2)) = Fin (1 / 2)"
  using round_f32_eval [of "- 1" "1 / 2" "1 / 2" "1 / 16777216" "8388608" False]
  by (simp add: f32_add_def round_half_even_def powi_vals Let_def FLT_MAX_def)

lemma ev_sub_70: "f32_sub (Fin (1 / 2)) (Fin (1 / 2)) = Fin 0"
  by (simp add: f32_sub_def f32_add_def round_f32_def FLT_MAX_def Let_def)

lemma ev_mul_71: "f32_mul (Fin (1 / 2)) (Fin 0) = Fin 0"
  by (simp add: f32_mul_def round_f32_def FLT_MAX_def Let_def)

lemma ev_add_72: "f32_add (Fin (1 / 2)) (Fin 0) = Fin (1 / 2)"
  using round_f32_eval [of "- 1" "1 / 2" "1 / 2" "1 / 16777216" "8388608" False]
  by (simp add: f32_add_def round_half_even_def powi_vals Let_def FLT_MAX_def)

lemma ev_div_73: "f32_div (Fin 1) (Fin 1) = Fin 1"
  using round_f32_eval [of "0" "1" "1" "1 / 8388608" "8388608" False]
  by (simp add: f32_div_def is_zero_def round_half_even_def powi_vals Let_def FLT_MAX_def)

lemma ev_add_74: "f32_add (Fin 0) (Fin 1) = Fin 1"
  using round_f32_eval [of "0" "1" "1" "1 / 8388608" "8388608" False]
  by (simp add: f32_add_def round_half_even_def powi_vals Let_def FLT_MAX_def)

lemma ev_sub_75: "f32_sub (Fin (5033165 / 16777216)) (Fin (1 / 2)) = Fin (- (3355443 / 16777216))"
  using round_f32_eval [of "- 3" "1 / 8" "- (3355443 / 16777216)" "1 / 67108864" "- 13421772" True]
  by (simp add: f32_sub_def f32_add_def round_half_even_def powi_vals Let_def FLT_MAX_def)

lemma ev_mul_76: "f32_mul (Fin 1) (Fin (- (3355443 / 16777216))) = Fin (- (3355443 / 16777216))"
  using round_f32_eval [of "- 3" "1 / 8" "- (3355443 / 16777216)" "1 / 67108864" "- 13421772" True]
  by (simp add: f32_mul_def round_half_even_def powi_vals Let_def FLT_MAX_def)

lemma ev_add_77: "f32_add (Fin (1 / 2)) (Fin (- (3355443 / 16777216))) = Fin (5033165 / 16777216)"
  using round_f32_eval [of "- 2" "1 / 4" "5033165 / 16777216" "1 / 33554432" "10066330" False]
  by (simp add: f32_add_def round_half_even_def powi_vals Let_def FLT_MAX_def)

lemma ev_sub_78: "f32_sub (Fin (13421773 / 134217728)) (Fin (1 / 2)) = Fin (- (13421773 / 33554432))"
  using round_f32_eval [of "- 2" "1 / 4" "- (53687091 / 134217728)" "1 / 33554432" "- 13421773" True]
  by (simp add: f32_sub_def f32_add_def round_half_even_def powi_vals Let_def FLT_MAX_def)

lemma ev_mul_79: "f32_mul (Fin 1) (Fin (- (13421773 / 33554432))) = Fin (- (13421773 / 33554432))"
  using round_f32_eval [of "- 2" "1 / 4" "- (13421773 / 33554432)" "1 / 33554432" "- 13421773" True]
  by (simp add: f32_mul_def round_half_even_def powi_vals Let_def FLT_MAX_def)

lemma ev_add_80: "f32_add (Fin (1 / 2)) (Fin (- (13421773 / 33554432))) = Fin (3355443 / 33554432)"
  using round_f32_eval [of "- 4" "1 / 16" "3355443 / 33554432" "1 / 134217728" "13421772" False]
  by (simp add: f32_add_def round_half_even_def powi_vals Let_def FLT_MAX_def)

lemma ev_sub_81: "f32_sub (Fin (13421773 / 67108864)) (Fin (1 / 2)) = Fin (- (5033165 / 16777216))"
  using round_f32_eval [of "- 2" "1 / 4" "- (20132659 / 67108864)" "1 / 33554432" "- 10066330" True]
  by (simp add: f32_sub_def f32_add_def round_half_even_def powi_vals Let_def FLT_MAX_def)

lemma ev_mul_82: "f32_mul (Fin 1) (Fin (- (5033165 / 16777216))) = Fin (- (5033165 / 16777216))"
  using round_f32_eval [of "- 2" "1 / 4" "- (5033165 / 16777216)" "1 / 33554432" "- 10066330" True]
  by (simp add: f32_mul_def round_half_even_def powi_vals Let_def FLT_MAX_def)

lemma ev_add_83: "f32_add (Fin (1 / 2)) (Fin (- (5033165 / 16777216))) = Fin (3355443 / 16777216)"
  using round_f32_eval [of "- 3" "1 / 8" "3355443 / 16777216" "1 / 67108864" "13421772" False]
  by (simp add: f32_add_def round_half_even_def powi_vals Let_def FLT_MAX_def)

lemma ev_sub_84: "f32_sub (Fin (13421773 / 33554432)) (Fin (1 / 2)) = Fin (- (3355443 / 33554432))"
  using round_f32_eval [of "- 4" "1 / 16" "- (3355443 / 33554432)" "1 / 134217728" "- 13421772" True]
  by (simp add: f32_sub_def f32_add_def round_half_even_def powi_vals Let_def FLT_MAX_def)

lemma ev_mul_85: "f32_mul (Fin 1) (Fin (- (3355443 / 33554432))) = Fin (- (3355443 / 33554432))"
  using round_f32_eval [of "- 4" "1 / 16" "- (3355443 / 33554432)" "1 / 134217728" "- 13421772" True]
  by (simp add: f32_mul_def round_half_even_def powi_vals Let_def FLT_MAX_def)

lemma ev_add_86: "f32_add (Fin (1 / 2)) (Fin (- (3355443 / 33554432))) = Fin (13421773 / 33554432)"
  using round_f32_eval [of "- 2" "1 / 4" "13421773 / 33554432" "1 / 33554432" "13421773" False]
  by (simp add: f32_add_def round_half_even_def powi_vals Let_def FLT_MAX_def)

lemma ev_mul_87: "f32_mul (Fin 1) (Fin (3355443 / 8388608)) = Fin (3355443 / 8388608)"
  using round_f32_eval [of "- 2" "1 / 4" "3355443 / 8388608" "1 / 33554432" "13421772" False]
  by (simp add: f32_mul_def round_half_even_def powi_vals Let_def FLT_MAX_def)

lemma ev_add_88: "f32_add (Fin (1 / 2)) (Fin (3355443 / 8388608)) = Fin (7549747 / 8388608)"
  using round_f32_eval [of "- 1" "1 / 2" "7549747 / 8388608" "1 / 16777216" "15099494" False]
  by (simp add: f32_add_def round_half_even_def powi_vals Let_def FLT_MAX_def)

lemma ev_mul_89: "f32_mul (Fin 1) (Fin (5033165 / 16777216)) = Fin (5033165 / 16777216)"
  using round_f32_eval [of "- 2" "1 / 4" "5033165 / 16777216" "1 / 33554432" "10066330" False]
  by (simp add: f32_mul_def round_half_even_def powi_vals Let_def FLT_MAX_def)

lemma ev_add_90: "f32_add (Fin (1 / 2)) (Fin (5033165 / 16777216)) = Fin (13421773 / 16777216)"
  using round_f32_eval [of "- 1" "1 / 2" "13421773 / 16777216" "1 / 16777216" "13421773" False]
  by (simp add: f32_add_def round_half_even_def powi_vals Let_def FLT_MAX_def)

lemma ev_mul_91: "f32_mul (Fin 1) (Fin (838861 / 8388608)) = Fin (838861 / 8388608)"
  using round_f32_eval [of "- 4" "1 / 16" "838861 / 8388608" "1 / 134217728" "13421776" False]
  by (simp add: f32_mul_def round_half_even_def powi_vals Let_def FLT_MAX_def)

lemma ev_add_92: "f32_add (Fin (1 / 2)) (Fin (838861 / 8388608)) = Fin (5033165 / 8388608)"
  using round_f32_eval [of "- 1" "1 / 2" "5033165 / 8388608" "1 / 16777216" "10066330" False]
  by (simp add: f32_add_def round_half_even_def powi_vals Let_def FLT_MAX_def)

lemma ev_mul_93: "f32_mul (Fin 1) (Fin (3355443 / 16777216)) = Fin (3355443 / 16777216)"
  using round_f32_eval [of "- 3" "1 / 8" "3355443 / 16777216" "1 / 67108864" "13421772" False]
  by (simp add: f32_mul_def round_half_even_def powi_vals Let_def FLT_MAX_def)

lemma ev_add_94: "f32_add (Fin (1 / 2)) (Fin (3355443 / 16777216)) = Fin (11744051 / 16777216)"
  using round_f32_eval [of "- 1" "1 / 2" "11744051 / 16777216" "1 / 16777216" "11744051" False]
  by (simp add: f32_add_def round_half_even_def powi_vals Let_def FLT_MAX_def)

lemmas ev = ev_lit_0 ev_lit_1 ev_lit_2 ev_lit_3 ev_lit_4 ev_lit_5 ev_lit_6 ev_lit_7 ev_lit_8 ev_div_9 ev_add_10 ev_sub_11 ev_mul_12 ev_add_13 ev_sub_14 ev_mul_15 ev_add_16 ev_sub_17 ev_mul_18 ev_add_19 ev_sub_20 ev_mul_21 ev_add_22 ev_add_23 ev_sub_24 ev_mul_25 ev_add_26 ev_sub_27 ev_mul_28 ev_add_29 ev_sub_30 ev_mul_31 ev_add_32 ev_sub_33 ev_mul_34 ev_add_35 ev_div_36 ev_add_37 ev_mul_38 ev_add_39 ev_mul_40 ev_add_41 ev_mul_42 ev_add_43 ev_mul_44 ev_add_45 ev_div_46 ev_add_47 ev_mul_48 ev_add_49 ev_mul_50 ev_add_51 ev_mul_52 ev_add_53 ev_mul_54 ev_add_55 ev_div_56 ev_add_57 ev_div_58 ev_add_59 ev_mul_60 ev_add_61 ev_mul_62 ev_add_63 ev_mul_64 ev_add_65 ev_mul_66 ev_add_67 ev_div_68 ev_add_69 ev_sub_70 ev_mul_71 ev_add_72 ev_div_73 ev_add_74 ev_sub_75 ev_mul_76 ev_add_77 ev_sub_78 ev_mul_79 ev_add_80 ev_sub_81 ev_mul_82 ev_add_83 ev_sub_84 ev_mul_85 ev_add_86 ev_mul_87 ev_add_88 ev_mul_89 ev_add_90 ev_mul_91 ev_add_92 ev_mul_93 ev_add_94

subsection \<open>One tick of a transition\<close>

lemmas run_defs =
  Tick_moved moved_def SetMusicContext_def TransitionToContext_def SetExploration_def
  SetCombat_def SetBoss_def SetPuzzle_def SetVictory_def default_TransitionTime_def
  UStaticWavesMusicSubsystem_def FMusicContext_default_def FMath_Lerp_def FMath_Clamp_def
  FMath_Max_def FMath_Min_def

lemma in_flight_fields [simp]:
  "CurrentContext in_flight =
     \<lparr>Energy = Fin (5033165 / 8388608), Tension = Fin (9646899 / 16777216),
      Darkness = Fin (4404019 / 8388608), Complexity = Fin (9227469 / 16777216)\<rparr>"
  "TargetContext in_flight =
     \<lparr>Energy = Fin (7549747 / 8388608), Tension = Fin (13421773 / 16777216),
      Darkness = Fin (5033165 / 8388608), Complexity = Fin (11744051 / 16777216)\<rparr>"
  "TransitionAlpha in_flight = Fin (1 / 4)"
  "TransitionDuration in_flight = Fin 1"
  "bIsConnected in_flight = False"
  "WebSocket in_flight = None"
  "net in_flight = []"
  by (simp_all add: in_flight_def run_defs SendControlUpdate_def ev)

lemma add_is_f32: "is_f32 (f32_add a b)"
proof (cases "is_finite a \<and> is_finite b")
  case True
  have "is_f32 (round_f32 n x)" for n x
    by (simp add: round_f32_def Let_def)
  then show ?thesis using True by (simp add: f32_add_finite)
next
  case False
  then show ?thesis
    by (cases a; cases b) (simp_all add: f32_add_def)
qed

lemma Clamp_unit:
  assumes "is_f32 X"
  shows "unit_f32 (FMath_Clamp X (Fin 0) (Fin 1))"
  using assms by (cases X) (simp_all add: FMath_Clamp_def FMath_Max_def FMath_Min_def)

lemma unit_f32_spec_clamp: "unit_f32 v \<Longrightarrow> FMath_Clamp v (Fin 0) (Fin 1) = v"
  by (cases v) (auto simp: FMath_Clamp_def FMath_Max_def FMath_Min_def)

lemma in_unit_spec_clamp: "in_unit c \<Longrightarrow> spec_clamp c = c"
  by (simp add: in_unit_def spec_clamp_def unit_f32_spec_clamp)

lemma fl32_half [simp]: "fl32 (1 / 2) = 1 / 2"
  using fl32_multiple [of "- 1" 8388608] by (simp add: two_powi_split(1) [of "- 1", simplified])

lemma in_unit_default: "in_unit FMusicContext_default"
  by (simp add: in_unit_def FMusicContext_default_def)

text \<open>
  C1. In a state whose \<^verbatim>\<open>TransitionAlpha\<close> is below 1, \<^verbatim>\<open>Tick(DeltaTime)\<close> adds
  \<^verbatim>\<open>DeltaTime / TransitionDuration\<close> to the progress, clamps the sum into the unit
  interval (the new progress is a binary32 number between 0 and 1 whatever the
  operands are, a NaN included), and sets every field of the current context to the
  interpolation from its own live value towards the target's with the new progress as
  blend factor: \<open>c + p * (t - c)\<close>, each of the three operations the binary32 one with
  its rounding. The target and the duration stay. With a progress that is not below 1
  the call changes nothing at all. There is no start snapshot in the state: a second
  tick interpolates from what the first one left.
\<close>

theorem Tick_relerp:
  "(f32_less (TransitionAlpha s) (Fin 1) \<longrightarrow>
      (let p = FMath_Clamp (f32_add (TransitionAlpha s) (f32_div dt (TransitionDuration s)))
                 (Fin 0) (Fin 1);
           c = CurrentContext s; t = TargetContext s; s' = Tick dt s
       in unit_f32 p \<and> TransitionAlpha s' = p \<and>
          Energy (CurrentContext s') =
            f32_add (Energy c) (f32_mul p (f32_sub (Energy t) (Energy c))) \<and>
          Tension (CurrentContext s') =
            f32_add (Tension c) (f32_mul p (f32_sub (Tension t) (Tension c))) \<and>
          Darkness (CurrentContext s') =
            f32_add (Darkness c) (f32_mul p (f32_sub (Darkness t) (Darkness c))) \<and>
          Complexity (CurrentContext s') =
            f32_add (Complexity c) (f32_mul p (f32_sub (Complexity t) (Complexity c))) \<and>
          TargetContext s' = t \<and> TransitionDuration s' = TransitionDuration s)) \<and>
   (\<not> f32_less (TransitionAlpha s) (Fin 1) \<longrightarrow> Tick dt s = s)"
  using Clamp_unit [OF add_is_f32]
  by (simp add: Tick_moved moved_def Let_def FMath_Lerp_def)

text \<open>
  The second quarter-second tick after \<^verbatim>\<open>SetCombat\<close>. The first one left the energy
  at 5033165 / 2^23, the float next above 0.6; the second takes it to 0.75, half of the
  way from that live value to the target \<^verbatim>\<open>0.9f\<close> (a straight line from the start
  value 0.5 would be at 0.7). After \<^verbatim>\<open>SetMusicContext\<close> a tick is the identity.
\<close>

theorem Tick_relerp_witness:
  "f32_less (TransitionAlpha in_flight) (Fin 1) \<and>
   CurrentContext in_flight =
     \<lparr>Energy = Fin (5033165 / 8388608), Tension = Fin (9646899 / 16777216),
      Darkness = Fin (4404019 / 8388608), Complexity = Fin (9227469 / 16777216)\<rparr> \<and>
   TransitionAlpha (Tick (Fin 0.25) in_flight) = Fin 0.5 \<and>
   Energy (CurrentContext (Tick (Fin 0.25) in_flight)) = Fin 0.75 \<and>
   Tension (CurrentContext (Tick (Fin 0.25) in_flight)) = Fin 0.6875 \<and>
   Darkness (CurrentContext (Tick (Fin 0.25) in_flight)) = Fin 0.5625 \<and>
   Complexity (CurrentContext (Tick (Fin 0.25) in_flight)) = Fin 0.625 \<and>
   \<not> f32_less (TransitionAlpha (SetMusicContext FMusicContext_default in_flight)) (Fin 1) \<and>
   Tick (Fin 5) (SetMusicContext FMusicContext_default in_flight) =
     SetMusicContext FMusicContext_default in_flight"
proof -
  have a: "\<not> f32_less (TransitionAlpha (SetMusicContext FMusicContext_default in_flight)) (Fin 1)"
    by (simp add: SetMusicContext_def)
  show ?thesis
    using Tick_relerp [of in_flight "Fin 0.25"]
      Tick_relerp [of "SetMusicContext FMusicContext_default in_flight" "Fin 5"] a
    by (simp add: Let_def FMath_Clamp_def FMath_Max_def FMath_Min_def ev)
qed

subsection \<open>Starting a transition\<close>

text \<open>
  C3, as the specification states it, has \<^verbatim>\<open>TransitionToContext\<close> store the clamped
  context. The source stores the context it is given: an energy of 2 becomes the
  target's energy.
\<close>

theorem TransitionToContext_counterexample:
  "TargetContext (TransitionToContext
       \<lparr>Energy = Fin 2, Tension = Fin 0.5, Darkness = Fin 0.5, Complexity = Fin 0.5\<rparr> (Fin 1)
       UStaticWavesMusicSubsystem)
   \<noteq> spec_clamp \<lparr>Energy = Fin 2, Tension = Fin 0.5, Darkness = Fin 0.5, Complexity = Fin 0.5\<rparr>"
  by (simp add: TransitionToContext_def spec_clamp_def FMath_Clamp_def FMath_Max_def FMath_Min_def)

text \<open>
  C3, amended. For every context \<open>C\<close>, duration \<open>d\<close> and state,
  \<^verbatim>\<open>TransitionToContext(C, d)\<close> sets the target to \<open>C\<close> as given (which is the clamped
  \<open>C\<close> whenever the fields of \<open>C\<close> lie in the unit interval), the duration to the
  larger of \<open>d\<close> and the float \<^verbatim>\<open>0.1f\<close>, that is 13421773 / 2^27 (and to \<open>d\<close> itself
  when \<open>d\<close> is a NaN, which no comparison finds smaller), and the progress to 0, and
  changes nothing else: the current context is the live one, also when an earlier
  transition is still in flight.
\<close>

theorem TransitionToContext_retargets:
  "TransitionToContext C d s =
     s\<lparr>TargetContext := C,
       TransitionDuration := (if f32_less d (f32_lit 0.1) then f32_lit 0.1 else d),
       TransitionAlpha := Fin 0\<rparr> \<and>
   f32_lit 0.1 = Fin (13421773 / 134217728) \<and>
   CurrentContext (TransitionToContext C d s) = CurrentContext s \<and>
   (in_unit C \<longrightarrow> TargetContext (TransitionToContext C d s) = spec_clamp C)"
  by (simp add: TransitionToContext_def FMath_Max_def in_unit_spec_clamp ev)

theorem TransitionToContext_retargets_witness:
  "in_unit FMusicContext_default \<and>
   TargetContext (TransitionToContext FMusicContext_default (Fin 0) in_flight) =
     spec_clamp FMusicContext_default \<and>
   TargetContext (TransitionToContext FMusicContext_default (Fin 0) in_flight) =
     FMusicContext_default \<and>
   TransitionDuration (TransitionToContext FMusicContext_default (Fin 0) in_flight) =
     Fin (13421773 / 134217728) \<and>
   TransitionAlpha (TransitionToContext FMusicContext_default (Fin 0) in_flight) = Fin 0 \<and>
   CurrentContext (TransitionToContext FMusicContext_default (Fin 0) in_flight) =
     \<lparr>Energy = Fin (5033165 / 8388608), Tension = Fin (9646899 / 16777216),
      Darkness = Fin (4404019 / 8388608), Complexity = Fin (9227469 / 16777216)\<rparr>"
  using in_unit_default
    TransitionToContext_retargets [of FMusicContext_default "Fin 0" in_flight]
  by (simp add: in_unit_spec_clamp [OF in_unit_default])

subsection \<open>Setting the context at once\<close>

text \<open>
  C4, as the specification states it, has \<^verbatim>\<open>SetMusicContext\<close> store the clamped
  context. The source stores the context it is given.
\<close>

theorem SetMusicContext_counterexample:
  "CurrentContext (SetMusicContext
       \<lparr>Energy = Fin 2, Tension = Fin 0.5, Darkness = Fin 0.5, Complexity = Fin 0.5\<rparr>
       UStaticWavesMusicSubsystem)
   \<noteq> spec_clamp \<lparr>Energy = Fin 2, Tension = Fin 0.5, Darkness = Fin 0.5, Complexity = Fin 0.5\<rparr>"
  by (simp add: SetMusicContext_def spec_clamp_def FMath_Clamp_def FMath_Max_def FMath_Min_def)

text \<open>
  C4, amended. For every context \<open>C\<close> and state, \<^verbatim>\<open>SetMusicContext(C)\<close> sets the
  current and the target context to \<open>C\<close> as given (the clamped \<open>C\<close> whenever the fields
  of \<open>C\<close> lie in the unit interval) and the progress to 1, and a following
  \<^verbatim>\<open>Tick\<close>, whatever its \<^verbatim>\<open>DeltaTime\<close>, leaves the whole state as it is.
\<close>

theorem SetMusicContext_immediate:
  "CurrentContext (SetMusicContext C s) = C \<and>
   TargetContext (SetMusicContext C s) = C \<and>
   TransitionAlpha (SetMusicContext C s) = Fin 1 \<and>
   Tick dt (SetMusicContext C s) = SetMusicContext C s \<and>
   (in_unit C \<longrightarrow> CurrentContext (SetMusicContext C s) = spec_clamp C \<and>
                 TargetContext (SetMusicContext C s) = spec_clamp C)"
  by (simp add: SetMusicContext_def Tick_moved in_unit_spec_clamp)

theorem SetMusicContext_immediate_witness:
  "in_unit FMusicContext_default \<and>
   CurrentContext (SetMusicContext FMusicContext_default in_flight) =
     spec_clamp FMusicContext_default \<and>
   TargetContext (SetMusicContext FMusicContext_default in_flight) =
     spec_clamp FMusicContext_default \<and>
   TransitionAlpha (SetMusicContext FMusicContext_default in_flight) = Fin 1 \<and>
   CurrentContext (Tick (Fin 3) (SetMusicContext FMusicContext_default in_flight)) =
     FMusicContext_default"
  using in_unit_default SetMusicContext_immediate [of FMusicContext_default in_flight "Fin 3"]
  by (simp add: in_unit_spec_clamp [OF in_unit_default])

subsection \<open>Named events\<close>

lemma lower_literals:
  "map to_lower ''combat_start'' = ''combat_start''"
  "map to_lower ''boss_enter'' = ''boss_enter''"
  "map to_lower ''puzzle_start'' = ''puzzle_start''"
  "map to_lower ''victory'' = ''victory''"
  "map to_lower ''Combat_Start'' = ''combat_start''"
  "map to_lower ''unknown_event'' = ''unknown_event''"
  by (simp_all add: to_lower_def)

lemma FName_eq_literals:
  "FName_eq n ''combat_start'' \<longleftrightarrow> map to_lower n = ''combat_start''"
  "FName_eq n ''boss_enter'' \<longleftrightarrow> map to_lower n = ''boss_enter''"
  "FName_eq n ''puzzle_start'' \<longleftrightarrow> map to_lower n = ''puzzle_start''"
  "FName_eq n ''victory'' \<longleftrightarrow> map to_lower n = ''victory''"
  by (simp_all only: FName_eq_def lower_literals)

lemma default_duration [simp]: "FMath_Max (f32_lit (1 / 10)) (Fin 1) = Fin 1"
  by (simp add: FMath_Max_def ev)

lemma half_duration [simp]: "FMath_Max (f32_lit (1 / 10)) (Fin (1 / 2)) = Fin (1 / 2)"
  by (simp add: FMath_Max_def ev)

text \<open>
  C5, as the specification states it, has \<^verbatim>\<open>PushMusicEvent\<close> dispatch on an exact
  match of the name. The comparison of an \<^verbatim>\<open>FName\<close> with a literal does not look at
  the case of letters: the name \<^verbatim>\<open>Combat_Start\<close>, which is not the string
  \<^verbatim>\<open>combat_start\<close>, starts the transition to the Combat preset over one second, and
  not the half-second transition to the current context with the tension replaced by
  the intensity.
\<close>

theorem PushMusicEvent_counterexample:
  "''Combat_Start'' \<noteq> ''combat_start'' \<and>
   PushMusicEvent ''Combat_Start'' (Fin 0.75) in_flight = SetCombat in_flight \<and>
   TransitionDuration (PushMusicEvent ''Combat_Start'' (Fin 0.75) in_flight) = Fin 1 \<and>
   Tension (TargetContext (PushMusicEvent ''Combat_Start'' (Fin 0.75) in_flight)) =
     Fin (13421773 / 16777216) \<and>
   Tension (TargetContext (PushMusicEvent ''Combat_Start'' (Fin 0.75) in_flight)) \<noteq> Fin 0.75"
proof -
  have e: "FName_eq ''Combat_Start'' ''combat_start''"
    by (simp only: FName_eq_def lower_literals)
  have p: "PushMusicEvent ''Combat_Start'' (Fin 0.75) in_flight = SetCombat in_flight"
    unfolding PushMusicEvent_def using e by simp
  show ?thesis
    unfolding p
    by (simp add: SetCombat_def TransitionToContext_def default_TransitionTime_def
        FMath_Max_def ev)
qed

text \<open>
  C5, amended. \<^verbatim>\<open>PushMusicEvent\<close> compares the name with four literals in turn,
  without regard to the case of letters. A name that is \<^verbatim>\<open>combat_start\<close> up to case
  starts a transition to the floats (0.9, 0.8, 0.6, 0.7), \<^verbatim>\<open>boss_enter\<close> to
  (1.0, 0.95, 0.8, 0.9), \<^verbatim>\<open>puzzle_start\<close> to (0.4, 0.5, 0.3, 0.6) and
  \<^verbatim>\<open>victory\<close> to (0.7, 0.2, 0.1, 0.5), each over the default second. Any other name
  starts a transition of half a second to the current context (not the target) with
  only its tension replaced by the intensity clamped into the unit interval, which is
  a binary32 number between 0 and 1 for every \<^verbatim>\<open>float\<close>, an infinity or a NaN
  included. Nothing else of the state changes.
\<close>

theorem PushMusicEvent_dispatch:
  "(map to_lower n = ''combat_start'' \<longrightarrow>
      PushMusicEvent n i s =
        s\<lparr>TargetContext := \<lparr>Energy = f32_lit 0.9, Tension = f32_lit 0.8,
            Darkness = f32_lit 0.6, Complexity = f32_lit 0.7\<rparr>,
          TransitionDuration := Fin 1, TransitionAlpha := Fin 0\<rparr>) \<and>
   (map to_lower n = ''boss_enter'' \<longrightarrow>
      PushMusicEvent n i s =
        s\<lparr>TargetContext := \<lparr>Energy = Fin 1, Tension = f32_lit 0.95,
            Darkness = f32_lit 0.8, Complexity = f32_lit 0.9\<rparr>,
          TransitionDuration := Fin 1, TransitionAlpha := Fin 0\<rparr>) \<and>
   (map to_lower n = ''puzzle_start'' \<longrightarrow>
      PushMusicEvent n i s =
        s\<lparr>TargetContext := \<lparr>Energy = f32_lit 0.4, Tension = Fin 0.5,
            Darkness = f32_lit 0.3, Complexity = f32_lit 0.6\<rparr>,
          TransitionDuration := Fin 1, TransitionAlpha := Fin 0\<rparr>) \<and>
   (map to_lower n = ''victory'' \<longrightarrow>
      PushMusicEvent n i s =
        s\<lparr>TargetContext := \<lparr>Energy = f32_lit 0.7, Tension = f32_lit 0.2,
            Darkness = f32_lit 0.1, Complexity = Fin 0.5\<rparr>,
          TransitionDuration := Fin 1, TransitionAlpha := Fin 0\<rparr>) \<and>
   (map to_lower n \<notin> {''combat_start'', ''boss_enter'', ''puzzle_start'', ''victory''} \<longrightarrow>
      PushMusicEvent n i s =
        s\<lparr>TargetContext := (CurrentContext s)\<lparr>Tension := FMath_Clamp i (Fin 0) (Fin 1)\<rparr>,
          TransitionDuration := Fin 0.5, TransitionAlpha := Fin 0\<rparr> \<and>
      (is_f32 i \<longrightarrow> unit_f32 (FMath_Clamp i (Fin 0) (Fin 1))))"
  using Clamp_unit [of i]
  by (auto simp: PushMusicEvent_def FName_eq_literals SetCombat_def SetBoss_def SetPuzzle_def
      SetVictory_def TransitionToContext_def default_TransitionTime_def Let_def)

text \<open>
  The four names, one of them in another case, and an unknown name with an intensity
  beyond the unit interval.
\<close>

theorem PushMusicEvent_dispatch_witness:
  "map to_lower ''combat_start'' = ''combat_start'' \<and>
   TargetContext (PushMusicEvent ''combat_start'' (Fin 1) in_flight) =
     \<lparr>Energy = Fin (7549747 / 8388608), Tension = Fin (13421773 / 16777216),
      Darkness = Fin (5033165 / 8388608), Complexity = Fin (11744051 / 16777216)\<rparr> \<and>
   map to_lower ''Boss_Enter'' = ''boss_enter'' \<and>
   TargetContext (PushMusicEvent ''Boss_Enter'' (Fin 1) in_flight) =
     \<lparr>Energy = Fin 1, Tension = Fin (15938355 / 16777216),
      Darkness = Fin (13421773 / 16777216), Complexity = Fin (7549747 / 8388608)\<rparr> \<and>
   map to_lower ''puzzle_start'' = ''puzzle_start'' \<and>
   TargetContext (PushMusicEvent ''puzzle_start'' (Fin 1) in_flight) =
     \<lparr>Energy = Fin (13421773 / 33554432), Tension = Fin (1 / 2),
      Darkness = Fin (5033165 / 16777216), Complexity = Fin (5033165 / 8388608)\<rparr> \<and>
   map to_lower ''victory'' = ''victory'' \<and>
   TargetContext (PushMusicEvent ''victory'' (Fin 1) in_flight) =
     \<lparr>Energy = Fin (11744051 / 16777216), Tension = Fin (13421773 / 67108864),
      Darkness = Fin (13421773 / 134217728), Complexity = Fin (1 / 2)\<rparr> \<and>
   TransitionDuration (PushMusicEvent ''victory'' (Fin 1) in_flight) = Fin 1 \<and>
   map to_lower ''unknown_event'' \<notin>
     {''combat_start'', ''boss_enter'', ''puzzle_start'', ''victory''} \<and>
   is_f32 (Fin 0.75) \<and>
   TargetContext (PushMusicEvent ''unknown_event'' (Fin 0.75) in_flight) =
     \<lparr>Energy = Fin (5033165 / 8388608), Tension = Fin 0.75,
      Darkness = Fin (4404019 / 8388608), Complexity = Fin (9227469 / 16777216)\<rparr> \<and>
   TargetContext (PushMusicEvent ''unknown_event'' PInf in_flight) =
     \<lparr>Energy = Fin (5033165 / 8388608), Tension = Fin 1,
      Darkness = Fin (4404019 / 8388608), Complexity = Fin (9227469 / 16777216)\<rparr> \<and>
   TransitionDuration (PushMusicEvent ''unknown_event'' (Fin 0.75) in_flight) = Fin 0.5 \<and>
   CurrentContext (PushMusicEvent ''unknown_event'' (Fin 0.75) in_flight) =
     CurrentContext in_flight"
proof -
  note d = PushMusicEvent_dispatch
  have l: "map to_lower ''Boss_Enter'' = ''boss_enter''" by (simp add: to_lower_def)
  have n: "map to_lower ''unknown_event'' \<notin>
      {''combat_start'', ''boss_enter'', ''puzzle_start'', ''victory''}"
    by (simp add: lower_literals)
  have r: "fl32 (3 / 4) = 3 / 4"
    using fl32_multiple [of "- 1" 12582912] by (simp add: two_powi_split(1) [of "- 1", simplified])
  have f: "is_f32 (Fin 0.75)" by (simp add: r FLT_MAX_def)
  from d [of "''combat_start''" "Fin 1" in_flight] lower_literals(1)
  have "PushMusicEvent ''combat_start'' (Fin 1) in_flight =
      in_flight\<lparr>TargetContext := \<lparr>Energy = f32_lit 0.9, Tension = f32_lit 0.8,
            Darkness = f32_lit 0.6, Complexity = f32_lit 0.7\<rparr>,
          TransitionDuration := Fin 1, TransitionAlpha := Fin 0\<rparr>" by blast
  then have c: "TargetContext (PushMusicEvent ''combat_start'' (Fin 1) in_flight) =
     \<lparr>Energy = Fin (7549747 / 8388608), Tension = Fin (13421773 / 16777216),
      Darkness = Fin (5033165 / 8388608), Complexity = Fin (11744051 / 16777216)\<rparr>"
    by (simp add: ev)
  from d [of "''Boss_Enter''" "Fin 1" in_flight] l
  have "PushMusicEvent ''Boss_Enter'' (Fin 1) in_flight =
      in_flight\<lparr>TargetContext := \<lparr>Energy = Fin 1, Tension = f32_lit 0.95,
            Darkness = f32_lit 0.8, Complexity = f32_lit 0.9\<rparr>,
          TransitionDuration := Fin 1, TransitionAlpha := Fin 0\<rparr>" by blast
  then have b: "TargetContext (PushMusicEvent ''Boss_Enter'' (Fin 1) in_flight) =
     \<lparr>Energy = Fin 1, Tension = Fin (15938355 / 16777216),
      Darkness = Fin (13421773 / 16777216), Complexity = Fin (7549747 / 8388608)\<rparr>"
    by (simp add: ev)
  from d [of "''puzzle_start''" "Fin 1" in_flight] lower_literals(3)
  have "PushMusicEvent ''puzzle_start'' (Fin 1) in_flight =
      in_flight\<lparr>TargetContext := \<lparr>Energy = f32_lit 0.4, Tension = Fin 0.5,
            Darkness = f32_lit 0.3, Complexity = f32_lit 0.6\<rparr>,
          TransitionDuration := Fin 1, TransitionAlpha := Fin 0\<rparr>" by blast
  then have p: "TargetContext (PushMusicEvent ''puzzle_start'' (Fin 1) in_flight) =
     \<lparr>Energy = Fin (13421773 / 33554432), Tension = Fin (1 / 2),
      Darkness = Fin (5033165 / 16777216), Complexity = Fin (5033165 / 8388608)\<rparr>"
    by (simp add: ev)
  from d [of "''victory''" "Fin 1" in_flight] lower_literals(4)
  have "PushMusicEvent ''victory'' (Fin 1) in_flight =
      in_flight\<lparr>TargetContext := \<lparr>Energy = f32_lit 0.7, Tension = f32_lit 0.2,
            Darkness = f32_lit 0.1, Complexity = Fin 0.5\<rparr>,
          TransitionDuration := Fin 1, TransitionAlpha := Fin 0\<rparr>" by blast
  then have v: "TargetContext (PushMusicEvent ''victory'' (Fin 1) in_flight) =
     \<lparr>Energy = Fin (11744051 / 16777216), Tension = Fin (13421773 / 67108864),
      Darkness = Fin (13421773 / 134217728), Complexity = Fin (1 / 2)\<rparr>"
    and vd: "TransitionDuration (PushMusicEvent ''victory'' (Fin 1) in_flight) = Fin 1"
    by (simp_all add: ev)
  from d [of "''unknown_event''" "Fin 0.75" in_flight] n
  have "PushMusicEvent ''unknown_event'' (Fin 0.75) in_flight =
      in_flight\<lparr>TargetContext :=
            (CurrentContext in_flight)\<lparr>Tension := FMath_Clamp (Fin 0.75) (Fin 0) (Fin 1)\<rparr>,
          TransitionDuration := Fin 0.5, TransitionAlpha := Fin 0\<rparr>" by blast
  then have u: "TargetContext (PushMusicEvent ''unknown_event'' (Fin 0.75) in_flight) =
     \<lparr>Energy = Fin (5033165 / 8388608), Tension = Fin 0.75,
      Darkness = Fin (4404019 / 8388608), Complexity = Fin (9227469 / 16777216)\<rparr>"
    and ud: "TransitionDuration (PushMusicEvent ''unknown_event'' (Fin 0.75) in_flight) = Fin 0.5"
    and uc: "CurrentContext (PushMusicEvent ''unknown_event'' (Fin 0.75) in_flight) =
      CurrentContext in_flight"
    by (simp_all add: FMath_Clamp_def FMath_Max_def FMath_Min_def)
  from d [of "''unknown_event''" PInf in_flight] n
  have "PushMusicEvent ''unknown_event'' PInf in_flight =
      in_flight\<lparr>TargetContext :=
            (CurrentContext in_flight)\<lparr>Tension := FMath_Clamp PInf (Fin 0) (Fin 1)\<rparr>,
          TransitionDuration := Fin 0.5, TransitionAlpha := Fin 0\<rparr>" by blast
  then have i: "TargetContext (PushMusicEvent ''unknown_event'' PInf in_flight) =
     \<lparr>Energy = Fin (5033165 / 8388608), Tension = Fin 1,
      Darkness = Fin (4404019 / 8388608), Complexity = Fin (9227469 / 16777216)\<rparr>"
    by (simp add: FMath_Clamp_def FMath_Max_def FMath_Min_def)
  show ?thesis
    using lower_literals(1,3,4) l n f c b p v vd u ud uc i by blast
qed

subsection \<open>The unit interval\<close>

lemma lit_is_f32: "is_f32 (f32_lit x)"
  by (simp add: f32_lit_def round_f32_def Let_def)

lemma unit_f32_I: "is_f32 v \<Longrightarrow> v = Fin y \<Longrightarrow> 0 \<le> y \<Longrightarrow> y \<le> 1 \<Longrightarrow> unit_f32 v"
  by simp

lemma unit_lit:
  assumes "0 \<le> x" "x \<le> 1"
  shows "unit_f32 (f32_lit x)"
proof -
  have a: "0 \<le> fl32 x" using assms(1) by (rule fl32_nonneg)
  have b: "fl32 x \<le> 1" using assms(2) by (intro fl32_le_rep) simp_all
  have "\<bar>fl32 x\<bar> \<le> FLT_MAX" using a b FLT_MAX_ge_1 by simp
  then have "f32_lit x = Fin (fl32 x)"
    using assms(1) unfolding f32_lit_def by (intro round_f32_Fin) simp_all
  then show ?thesis using a b by simp
qed

lemma presets_in_unit:
  "in_unit \<lparr>Energy = f32_lit 0.3, Tension = f32_lit 0.1, Darkness = f32_lit 0.2,
     Complexity = f32_lit 0.4\<rparr>"
  "in_unit \<lparr>Energy = f32_lit 0.9, Tension = f32_lit 0.8, Darkness = f32_lit 0.6,
     Complexity = f32_lit 0.7\<rparr>"
  "in_unit \<lparr>Energy = Fin 1, Tension = f32_lit 0.95, Darkness = f32_lit 0.8,
     Complexity = f32_lit 0.9\<rparr>"
  "in_unit \<lparr>Energy = f32_lit 0.4, Tension = Fin 0.5, Darkness = f32_lit 0.3,
     Complexity = f32_lit 0.6\<rparr>"
  "in_unit \<lparr>Energy = f32_lit 0.7, Tension = f32_lit 0.2, Darkness = f32_lit 0.1,
     Complexity = Fin 0.5\<rparr>"
  by (simp_all add: in_unit_def unit_lit)

lemma Tick_in_unit:
  assumes "contexts_in_unit s"
  shows "contexts_in_unit (Tick dt s)"
proof (cases "f32_less (TransitionAlpha s) (Fin 1)")
  case False
  then show ?thesis using assms by (simp add: Tick_moved)
next
  case True
  let ?p = "FMath_Clamp (f32_add (TransitionAlpha s) (f32_div dt (TransitionDuration s)))
              (Fin 0) (Fin 1)"
  have p: "unit_f32 ?p" by (rule Clamp_unit [OF add_is_f32])
  have c: "in_unit (CurrentContext s)" and t: "in_unit (TargetContext s)"
    using assms by (simp_all add: contexts_in_unit_def)
  have "in_unit (CurrentContext (moved ?p s))"
    using c t p by (simp add: moved_def in_unit_def Lerp_unit)
  then show ?thesis
    using True t by (simp add: Tick_moved contexts_in_unit_def)
qed

lemma TransitionToContext_in_unit:
  "contexts_in_unit s \<Longrightarrow> in_unit c \<Longrightarrow> contexts_in_unit (TransitionToContext c t s)"
  by (simp add: contexts_in_unit_def TransitionToContext_def)

lemma SetMusicContext_in_unit:
  "in_unit c \<Longrightarrow> contexts_in_unit (SetMusicContext c s)"
  by (simp add: contexts_in_unit_def SetMusicContext_def)

lemma connection_contexts [simp]:
  "CurrentContext (Connect url s) = CurrentContext s"
  "TargetContext (Connect url s) = TargetContext s"
  "CurrentContext (Disconnect s) = CurrentContext s"
  "TargetContext (Disconnect s) = TargetContext s"
  "CurrentContext (OnConnected s) = CurrentContext s"
  "TargetContext (OnConnected s) = TargetContext s"
  "CurrentContext (OnConnectionError e s) = CurrentContext s"
  "TargetContext (OnConnectionError e s) = TargetContext s"
  "CurrentContext (OnClosed code reason clean s) = CurrentContext s"
  "TargetContext (OnClosed code reason clean s) = TargetContext s"
  "CurrentContext (OnMessage m s) = CurrentContext s"
  "TargetContext (OnMessage m s) = TargetContext s"
  by (simp_all add: Connect_def Disconnect_def OnConnected_def OnConnectionError_def
      OnClosed_def OnMessage_def UE_LOG_def call_ws_def Let_def split: option.splits)

lemma PushMusicEvent_in_unit:
  assumes "contexts_in_unit s" "is_f32 i"
  shows "contexts_in_unit (PushMusicEvent n i s)"
proof -
  have "in_unit ((CurrentContext s)\<lparr>Tension := FMath_Clamp i (Fin 0) (Fin 1)\<rparr>)"
    using assms Clamp_unit [of i] by (simp add: contexts_in_unit_def in_unit_def)
  then show ?thesis
    using assms(1) presets_in_unit
    by (simp add: PushMusicEvent_def SetCombat_def SetBoss_def SetPuzzle_def SetVictory_def
        TransitionToContext_in_unit Let_def)
qed

lemma exec_in_unit:
  assumes "contexts_in_unit s" "args_in_unit x"
  shows "contexts_in_unit (exec x s)"
proof (cases x)
  case (OpSetMusicContext c)
  then show ?thesis using assms by (simp add: SetMusicContext_in_unit)
next
  case (OpTransitionToContext c t)
  then show ?thesis using assms by (simp add: TransitionToContext_in_unit)
next
  case (OpPushMusicEvent n i)
  then show ?thesis using assms by (simp add: PushMusicEvent_in_unit)
next
  case (OpTick dt)
  then show ?thesis using assms by (simp add: Tick_in_unit)
qed (use assms presets_in_unit in
      \<open>simp_all add: SetExploration_def SetCombat_def SetBoss_def SetPuzzle_def SetVictory_def
         TransitionToContext_in_unit\<close>,
     simp_all add: contexts_in_unit_def)

lemma constructed_in_unit: "contexts_in_unit UStaticWavesMusicSubsystem"
  by (simp add: contexts_in_unit_def UStaticWavesMusicSubsystem_def in_unit_default)

text \<open>
  C2, as the specification states it, has every setter clamp its argument. Neither
  \<^verbatim>\<open>SetMusicContext\<close> nor \<^verbatim>\<open>TransitionToContext\<close> does: an energy of 2 becomes
  the current energy, a tension of -1 the target's tension.
\<close>

theorem setters_do_not_clamp_counterexample:
  "\<not> contexts_in_unit
       (exec (OpSetMusicContext
            \<lparr>Energy = Fin 2, Tension = Fin 0.5, Darkness = Fin 0.5, Complexity = Fin 0.5\<rparr>)
          UStaticWavesMusicSubsystem) \<and>
   \<not> contexts_in_unit
       (exec (OpTransitionToContext
            \<lparr>Energy = Fin 0.5, Tension = Fin (- 1), Darkness = Fin 0.5,
             Complexity = Fin 0.5\<rparr> (Fin 1))
          UStaticWavesMusicSubsystem)"
  by (simp add: contexts_in_unit_def in_unit_def SetMusicContext_def TransitionToContext_def)

text \<open>
  C2, amended. From a state whose current and target context lie in the unit interval
  (the constructed state is one), every run of operations keeps both contexts in the
  unit interval, with every rounding of the binary32 arithmetic taken into account,
  provided each context handed to \<^verbatim>\<open>SetMusicContext\<close> or \<^verbatim>\<open>TransitionToContext\<close>
  lies in the unit interval. The intensity of \<^verbatim>\<open>PushMusicEvent\<close> may be any
  \<^verbatim>\<open>float\<close>, also an infinity or a NaN: it is clamped. Nothing is asked of durations
  and tick times.
\<close>

theorem contexts_stay_in_unit:
  assumes "contexts_in_unit s" and "list_all args_in_unit ops"
  shows "contexts_in_unit (run ops s)"
  using assms
proof (induction ops arbitrary: s)
  case Nil
  then show ?case by simp
next
  case (Cons x xs)
  from Cons.prems have "contexts_in_unit (exec x s)"
    by (simp add: exec_in_unit)
  with Cons show ?case by simp
qed

theorem contexts_stay_in_unit_witness:
  "contexts_in_unit UStaticWavesMusicSubsystem \<and>
   list_all args_in_unit
     [OpSetCombat, OpTick (Fin 0.25), OpPushMusicEvent ''alarm'' (Fin 7), OpTick (Fin (- 3)),
      OpPushMusicEvent ''alarm'' NaN, OpTick PInf,
      OpSetMusicContext
        \<lparr>Energy = Fin 0, Tension = Fin 1, Darkness = Fin 0.25, Complexity = Fin 0.5\<rparr>] \<and>
   contexts_in_unit
     (run
        [OpSetCombat, OpTick (Fin 0.25), OpPushMusicEvent ''alarm'' (Fin 7), OpTick (Fin (- 3)),
         OpPushMusicEvent ''alarm'' NaN, OpTick PInf,
         OpSetMusicContext
           \<lparr>Energy = Fin 0, Tension = Fin 1, Darkness = Fin 0.25, Complexity = Fin 0.5\<rparr>]
        UStaticWavesMusicSubsystem)"
proof -
  have q: "fl32 (1 / 4) = 1 / 4"
    using fl32_multiple [of "- 2" 8388608] by (simp add: two_powi_split(1) [of "- 2", simplified])
  have s: "fl32 7 = 7"
    using fl32_multiple [of 2 14680064] by (simp add: two_powi_split(1) [of 2, simplified])
  have a: "list_all args_in_unit
     [OpSetCombat, OpTick (Fin 0.25), OpPushMusicEvent ''alarm'' (Fin 7), OpTick (Fin (- 3)),
      OpPushMusicEvent ''alarm'' NaN, OpTick PInf,
      OpSetMusicContext
        \<lparr>Energy = Fin 0, Tension = Fin 1, Darkness = Fin 0.25, Complexity = Fin 0.5\<rparr>]"
    by (simp add: in_unit_def q s FLT_MAX_def)
  show ?thesis
    using constructed_in_unit a contexts_stay_in_unit [OF constructed_in_unit a]
    by blast
qed

subsection \<open>The push on connection\<close>

lemma ToJson_default:
  \<open>ToJson FMusicContext_default =
     ''{"energy":0.50,"tension":0.50,"darkness":0.50,"complexity":0.50}''\<close>
  by (simp add: ToJson_def FMusicContext_default_def fmt_2f_real_def round_half_even_def
      Let_def dec_digits_small digit_char_def)

lemma ToJson_in_flight:
  \<open>ToJson \<lparr>Energy = Fin (5033165 / 8388608), Tension = Fin (9646899 / 16777216),
      Darkness = Fin (4404019 / 8388608), Complexity = Fin (9227469 / 16777216)\<rparr> =
     ''{"energy":0.60,"tension":0.57,"darkness":0.52,"complexity":0.55}''\<close>
  by (simp add: ToJson_def fmt_2f_real_def round_half_even_def
      Let_def dec_digits_small digit_char_def)

lemma ToJson_second:
  \<open>ToJson \<lparr>Energy = Fin (3 / 4), Tension = Fin (11 / 16),
      Darkness = Fin (9 / 16), Complexity = Fin (5 / 8)\<rparr> =
     ''{"energy":0.75,"tension":0.69,"darkness":0.56,"complexity":0.62}''\<close>
  by (simp add: ToJson_def fmt_2f_real_def round_half_even_def
      Let_def dec_digits_small digit_char_def)

lemma exec_not_connected:
  assumes "\<not> bIsConnected s" "x \<noteq> EvConnected"
  shows "\<not> bIsConnected (exec x s) \<and> sends (net (exec x s)) = sends (net s)"
  using assms
  by (cases x)
     (simp_all add: SetMusicContext_def Tick_moved SendControlUpdate_offline Let_def
        SetExploration_def SetCombat_def SetBoss_def SetPuzzle_def SetVictory_def
        PushMusicEvent_def Connect_def Disconnect_def OnConnectionError_def OnClosed_def
        OnMessage_def UE_LOG_def call_ws_def sends_append)

lemma run_not_connected:
  assumes "\<not> bIsConnected s" "list_all (\<lambda>x. x \<noteq> EvConnected) ops"
  shows "\<not> bIsConnected (run ops s) \<and> sends (net (run ops s)) = sends (net s)"
  using assms
proof (induction ops arbitrary: s)
  case Nil
  then show ?case by simp
next
  case (Cons x xs)
  from Cons.prems have e: "\<not> bIsConnected (exec x s) \<and> sends (net (exec x s)) = sends (net s)"
    by (simp add: exec_not_connected)
  from Cons.prems have "list_all (\<lambda>x. x \<noteq> EvConnected) xs" by simp
  with e Cons.IH [of "exec x s"] show ?case by simp
qed


lemma before_open_run:
  "WebSocket (run before_open UStaticWavesMusicSubsystem) = Some 0"
  "CurrentContext (run before_open UStaticWavesMusicSubsystem) =
     \<lparr>Energy = Fin (3 / 4), Tension = Fin (11 / 16),
      Darkness = Fin (9 / 16), Complexity = Fin (5 / 8)\<rparr>"
  by (simp_all add: before_open_def Connect_def Disconnect_def OnMessage_def UE_LOG_def
      call_ws_def fresh_socket_def run_defs SendControlUpdate_def Let_def ev)


subsection \<open>What a tick sends\<close>

lemma connected_eq:
  "connected = connecting
     \<lparr>bIsConnected := True,
      net := net connecting @ [WsSend 0 (ToJson FMusicContext_default)],
      logs := logs connecting @ [(Log, ''[StaticWaves] Connected successfully''),
         (Verbose, ''[StaticWaves] Sent: '' @ ToJson FMusicContext_default)]\<rparr>"
  by (simp add: connected_def connecting_eq OnConnected_def SendControlUpdate_def UE_LOG_def
      call_ws_def UStaticWavesMusicSubsystem_def Let_def)

lemma connected_fields [simp]:
  "WebSocket connected = Some 0"
  "bIsConnected connected = True"
  "CurrentContext connected = FMusicContext_default"
  "TargetContext connected = FMusicContext_default"
  "TransitionAlpha connected = Fin 1"
  "TransitionDuration connected = Fin 1"
  "net connected = [CreateWebSocket 0 ''ws://localhost:8765'', BindCallbacks 0, WsConnect 0,
     WsSend 0 (ToJson FMusicContext_default)]"
  by (simp_all add: connected_eq)

lemma idle_transition_fields [simp]:
  "WebSocket idle_transition = Some 0"
  "bIsConnected idle_transition = True"
  "CurrentContext idle_transition = FMusicContext_default"
  "TargetContext idle_transition = FMusicContext_default"
  "TransitionAlpha idle_transition = Fin 0"
  "TransitionDuration idle_transition = Fin 1"
  "net idle_transition = net connected"
  by (simp_all add: idle_transition_def TransitionToContext_def FMath_Max_def ev)

lemma net_Tick:
  "net (Tick dt s) =
     net s @ (case WebSocket s of
                Some w \<Rightarrow> if f32_less (TransitionAlpha s) (Fin 1) \<and> bIsConnected s
                          then [WsSend w (ToJson (CurrentContext (Tick dt s)))] else []
              | None \<Rightarrow> [])"
  by (simp add: Tick_moved net_SendControlUpdate split: option.splits)

text \<open>
  C7, as the specification states it, has a tick send only when the current context
  changed. The source sends on every tick of a transition in flight: connected, with a
  transition started towards the context the subsystem is already at, a tick leaves the
  current context (and its serialization) as it was and still sends a frame.
\<close>

theorem Tick_send_counterexample:
  "bIsConnected idle_transition \<and>
   CurrentContext (Tick (Fin 0.5) idle_transition) = CurrentContext idle_transition \<and>
   ToJson (CurrentContext (Tick (Fin 0.5) idle_transition)) = ToJson (CurrentContext idle_transition) \<and>
   sends (net (Tick (Fin 0.5) idle_transition)) =
     sends (net idle_transition) @ [ToJson (CurrentContext idle_transition)] \<and>
   sends (net (Tick (Fin 0.5) idle_transition)) \<noteq> sends (net idle_transition)"
proof -
  have c: "CurrentContext (Tick (Fin 0.5) idle_transition) = FMusicContext_default"
    by (simp add: run_defs ev)
  have n: "net (Tick (Fin 0.5) idle_transition) =
      net idle_transition @ [WsSend 0 (ToJson FMusicContext_default)]"
    unfolding net_Tick c by simp
  show ?thesis
    unfolding n c by (simp add: sends_append)
qed

text \<open>
  C7, amended. During \<^verbatim>\<open>Tick\<close> one frame, the serialized new current context, is
  sent if and only if the progress is below 1 at the start of the call, the connected
  flag is set and the socket is held; whether the current context changed plays no
  part. A tick that changes the current context has a progress below 1, so it sends
  whenever the subsystem is connected. Nothing is sent while not connected, and nothing
  when the progress is not below 1.
\<close>

theorem Tick_sends_while_in_flight:
  "net (Tick dt s) =
     net s @ (case WebSocket s of
                Some w \<Rightarrow> if f32_less (TransitionAlpha s) (Fin 1) \<and> bIsConnected s
                          then [WsSend w (ToJson (CurrentContext (Tick dt s)))] else []
              | None \<Rightarrow> []) \<and>
   (CurrentContext (Tick dt s) \<noteq> CurrentContext s \<longrightarrow>
      f32_less (TransitionAlpha s) (Fin 1)) \<and>
   (\<not> bIsConnected s \<longrightarrow> sends (net (Tick dt s)) = sends (net s)) \<and>
   (\<not> f32_less (TransitionAlpha s) (Fin 1) \<longrightarrow> sends (net (Tick dt s)) = sends (net s))"
proof -
  have a: "CurrentContext (Tick dt s) \<noteq> CurrentContext s \<longrightarrow>
      f32_less (TransitionAlpha s) (Fin 1)"
    by (simp add: Tick_moved)
  have b: "\<not> bIsConnected s \<longrightarrow> sends (net (Tick dt s)) = sends (net s)"
    unfolding net_Tick by (simp split: option.splits)
  have c: "\<not> f32_less (TransitionAlpha s) (Fin 1) \<longrightarrow>
      sends (net (Tick dt s)) = sends (net s)"
    unfolding net_Tick by (simp split: option.splits)
  show ?thesis using a b c net_Tick by blast
qed

theorem Tick_sends_while_in_flight_witness:
  \<open>sends (net (Tick (Fin 0.25) (SetCombat connected))) =
     sends (net connected) @
       [''{"energy":0.60,"tension":0.57,"darkness":0.52,"complexity":0.55}''] \<and>
   CurrentContext (Tick (Fin 0.25) (SetCombat connected)) \<noteq>
     CurrentContext (SetCombat connected) \<and>
   f32_less (TransitionAlpha (SetCombat connected)) (Fin 1) \<and>
   \<not> bIsConnected in_flight \<and>
   sends (net (Tick (Fin 0.25) in_flight)) = sends (net in_flight) \<and>
   \<not> f32_less (TransitionAlpha connected) (Fin 1) \<and>
   sends (net (Tick (Fin 0.25) connected)) = sends (net connected)\<close>
proof -
  have f: "WebSocket (SetCombat connected) = Some 0" "bIsConnected (SetCombat connected)"
    "TransitionAlpha (SetCombat connected) = Fin 0" "net (SetCombat connected) = net connected"
    "CurrentContext (SetCombat connected) = FMusicContext_default"
    by (simp_all add: SetCombat_def TransitionToContext_def)
  have c: "CurrentContext (Tick (Fin 0.25) (SetCombat connected)) =
      \<lparr>Energy = Fin (5033165 / 8388608), Tension = Fin (9646899 / 16777216),
       Darkness = Fin (4404019 / 8388608), Complexity = Fin (9227469 / 16777216)\<rparr>"
    by (simp add: run_defs ev)
  note t = Tick_sends_while_in_flight [of "Fin 0.25" "SetCombat connected"]
    Tick_sends_while_in_flight [of "Fin 0.25" in_flight]
    Tick_sends_while_in_flight [of "Fin 0.25" connected]
  from t(1) have "net (Tick (Fin 0.25) (SetCombat connected)) =
      net connected @ [WsSend 0 (ToJson (CurrentContext (Tick (Fin 0.25) (SetCombat connected))))]"
    by (simp add: f)
  then have n: "sends (net (Tick (Fin 0.25) (SetCombat connected))) =
      sends (net connected) @
        [ToJson (CurrentContext (Tick (Fin 0.25) (SetCombat connected)))]"
    by (simp add: sends_append)
  have d: "CurrentContext (Tick (Fin 0.25) (SetCombat connected)) \<noteq>
      CurrentContext (SetCombat connected)"
    unfolding c f by (simp add: FMusicContext_default_def)
  have g: "f32_less (TransitionAlpha (SetCombat connected)) (Fin 1)" by (simp add: f)
  have h: "\<not> bIsConnected in_flight" by simp
  from t(2) h have i: "sends (net (Tick (Fin 0.25) in_flight)) = sends (net in_flight)" by blast
  have j: "\<not> f32_less (TransitionAlpha connected) (Fin 1)" by simp
  from t(3) j have k: "sends (net (Tick (Fin 0.25) connected)) = sends (net connected)" by blast
  show ?thesis
    using n d g h i j k unfolding c ToJson_in_flight by blast
qed

subsection \<open>Connecting and disconnecting\<close>




subsection \<open>Ticks that do not advance time\<close>

lemma round_f32_is_f32: "is_f32 (round_f32 n x)"
  by (simp add: round_f32_def Let_def)

lemma Clamp_below:
  assumes "is_f32 X" "X = NInf \<or> (is_finite X \<and> val X \<le> a)" "0 \<le> a" "a \<le> 1"
  shows "unit_f32 (FMath_Clamp X (Fin 0) (Fin 1)) \<and> val (FMath_Clamp X (Fin 0) (Fin 1)) \<le> a"
  using assms by (cases X) (auto simp: FMath_Clamp_def FMath_Max_def FMath_Min_def)

lemma quotient_nonpositive:
  assumes "nonpositive dt" "positive_finite D"
  shows "f32_div dt D = NInf \<or> (is_finite (f32_div dt D) \<and> val (f32_div dt D) \<le> 0)"
proof -
  from assms(2) obtain d where D: "D = Fin d" and d: "0 < d"
    by (cases D) simp_all
  have r: "round_f32 n x = NInf \<or> (is_finite (round_f32 n x) \<and> val (round_f32 n x) \<le> 0)"
    if "x \<le> 0" for n x
    using fl32_nonpos [OF that] by (auto simp: round_f32_def Let_def FLT_MAX_def)
  show ?thesis
  proof (cases dt)
    case (Fin x)
    with assms(1) have "x \<le> 0" by (auto simp: nonpositive_def is_zero_def)
    then have "x / d \<le> 0" using d by (simp add: divide_nonpos_pos)
    then show ?thesis
      using r [of "x / d"] d by (simp add: Fin D f32_div_def is_zero_def)
  next
    case NegZero
    then show ?thesis using d r [of 0] by (simp add: D f32_div_def is_zero_def)
  next
    case PInf
    with assms(1) show ?thesis by (simp add: nonpositive_def is_zero_def)
  next
    case NInf
    then show ?thesis using d by (simp add: D f32_div_def infinity_def)
  next
    case NaN
    with assms(1) show ?thesis by (simp add: nonpositive_def is_zero_def)
  qed
qed

lemma quotient_zero:
  assumes "is_zero dt" "positive_finite D"
  shows "is_finite (f32_div dt D) \<and> val (f32_div dt D) = 0"
proof -
  from assms(2) obtain d where D: "D = Fin d" and d: "0 < d"
    by (cases D) simp_all
  show ?thesis
    using assms(1) d
    by (cases dt) (simp_all add: D f32_div_def is_zero_def round_f32_def FLT_MAX_def)
qed

lemma add_nonpositive:
  assumes "unit_f32 A" and "Q = NInf \<or> (is_finite Q \<and> val Q \<le> 0)"
  shows "f32_add A Q = NInf \<or> (is_finite (f32_add A Q) \<and> val (f32_add A Q) \<le> val A)"
proof -
  from assms(1) obtain a where A: "A = Fin a" and ra: "fl32 a = a" and a: "0 \<le> a" "a \<le> 1"
    by (rule unit_f32_D)
  show ?thesis
  proof (cases "Q = NInf")
    case True
    then show ?thesis by (simp add: A f32_add_def)
  next
    case False
    with assms(2) have Q: "is_finite Q" "val Q \<le> 0" by simp_all
    have le: "fl32 (a + val Q) \<le> a"
      using Q(2) ra by (intro fl32_le_rep) simp_all
    have "FLT_MAX < \<bar>fl32 (a + val Q)\<bar> \<longrightarrow> fl32 (a + val Q) < 0"
      using le a FLT_MAX_ge_1 by auto
    then show ?thesis
      using le f32_add_finite [of A Q] Q(1)
      by (auto simp: A round_f32_def Let_def)
  qed
qed

lemma add_zero:
  assumes "unit_f32 A" and "is_finite Q" "val Q = 0"
  shows "f32_add A Q = A"
proof -
  from assms(1) obtain a where A: "A = Fin a" and ra: "fl32 a = a" and a: "0 \<le> a" "a \<le> 1"
    by (rule unit_f32_D)
  have "\<bar>a\<bar> \<le> FLT_MAX" using a FLT_MAX_ge_1 by simp
  then show ?thesis
    using f32_add_finite [of A Q] assms(2,3) ra
    by (auto simp: A round_f32_def Let_def)
qed

lemma Lerp_zero:
  assumes "unit_f32 c" "unit_f32 t"
  shows "FMath_Lerp c t (Fin 0) = c"
proof -
  from assms(1) obtain x where c: "c = Fin x" by (rule unit_f32_D)
  from assms(2) obtain y where t: "t = Fin y" and y: "0 \<le> y" "y \<le> 1" by (rule unit_f32_D)
  from assms(1) c have x: "0 \<le> x" "x \<le> 1" by simp_all
  have "\<bar>fl32 (y - x)\<bar> \<le> 1" using x y by (intro fl32_abs_le_1) simp
  then have b: "\<bar>fl32 (y - x)\<bar> \<le> FLT_MAX" using FLT_MAX_ge_1 by simp
  have nf: "is_finite (f32_neg c)" "val (f32_neg c) = - x"
    using f32_neg_finite [of c] by (simp_all add: c)
  have "f32_sub t c = round_f32 (if y + - x = 0 then t = NegZero \<and> f32_neg c = NegZero
      else y + - x < 0) (y + - x)"
    unfolding f32_sub_def using f32_add_finite [of t "f32_neg c"] nf by (simp add: t)
  then have D: "is_finite (f32_sub t c)"
    using b by (simp add: round_f32_finite)
  have "f32_mul (Fin 0) (f32_sub t c) = round_f32 (sign_bit (Fin 0) \<noteq> sign_bit (f32_sub t c)) 0"
    using f32_mul_finite [of "Fin 0" "f32_sub t c"] D by simp
  then have M: "is_finite (f32_mul (Fin 0) (f32_sub t c))" "val (f32_mul (Fin 0) (f32_sub t c)) = 0"
    by (simp_all add: round_f32_def FLT_MAX_def)
  show ?thesis
    unfolding FMath_Lerp_def by (rule add_zero [OF assms(1) M])
qed

lemma Lerp_same:
  assumes "unit_f32 c" "unit_f32 p"
  shows "FMath_Lerp c c p = c"
proof -
  from assms(1) obtain x where c: "c = Fin x" by (rule unit_f32_D)
  from assms(2) obtain q where p: "p = Fin q" and q: "0 \<le> q" by (rule unit_f32_D)
  have nf: "is_finite (f32_neg c)" "val (f32_neg c) = - x"
    using f32_neg_finite [of c] by (simp_all add: c)
  have "f32_sub c c = round_f32 (c = NegZero \<and> f32_neg c = NegZero) 0"
    unfolding f32_sub_def using f32_add_finite [of c "f32_neg c"] nf by (simp add: c)
  then have D: "f32_sub c c = Fin 0"
    by (simp add: c round_f32_def FLT_MAX_def)
  have "f32_mul p (f32_sub c c) = round_f32 (sign_bit p \<noteq> sign_bit (Fin 0)) 0"
    unfolding D using f32_mul_finite [of p "Fin 0"] by (simp add: p)
  then have M: "is_finite (f32_mul p (f32_sub c c))" "val (f32_mul p (f32_sub c c)) = 0"
    by (simp_all add: round_f32_def FLT_MAX_def)
  show ?thesis
    unfolding FMath_Lerp_def by (rule add_zero [OF assms(1) M])
qed

lemma fl32_quarter [simp]: "fl32 (1 / 4) = 1 / 4"
  using fl32_multiple [of "- 2" 8388608] by (simp add: two_powi_split(1) [of "- 2", simplified])




subsection \<open>The last tick of a transition\<close>

lemma Clamp_top:
  assumes "\<not> f32_less X (Fin 1)"
  shows "FMath_Clamp X (Fin 0) (Fin 1) = Fin 1"
  using assms by (simp add: FMath_Clamp_def FMath_Max_def FMath_Min_def)

lemma Lerp_exact:
  assumes "exact_field c t"
  shows "FMath_Lerp c t (Fin 1) = t"
proof -
  from assms obtain x y where c: "c = Fin x" and t: "t = Fin y"
    by (cases c; cases t) simp_all
  from assms have ry: "fl32 y = y" and yb: "\<bar>y\<bar> \<le> FLT_MAX"
    and rd: "fl32 (y - x) = y - x" and bd: "\<bar>y - x\<bar> \<le> FLT_MAX"
    by (simp_all add: c t)
  have nf: "is_finite (f32_neg c)" "val (f32_neg c) = - x"
    using f32_neg_finite [of c] by (simp_all add: c)
  have "f32_sub t c = round_f32 (if y + - x = 0 then t = NegZero \<and> f32_neg c = NegZero
      else y + - x < 0) (y + - x)"
    unfolding f32_sub_def using f32_add_finite [of t "f32_neg c"] nf by (simp add: t)
  also have "\<dots> = Fin (fl32 (y + - x))"
    using rd bd by (intro round_f32_Fin) (simp_all add: t)
  finally have D: "f32_sub t c = Fin (y - x)" using rd by simp
  have "f32_mul (Fin 1) (f32_sub t c) = round_f32 (sign_bit (Fin 1) \<noteq> sign_bit (Fin (y - x))) (y - x)"
    unfolding D using f32_mul_finite [of "Fin 1" "Fin (y - x)"] by simp
  also have "\<dots> = Fin (fl32 (y - x))"
    using rd bd by (intro round_f32_Fin) simp_all
  finally have M: "f32_mul (Fin 1) (f32_sub t c) = Fin (y - x)" using rd by simp
  have "f32_add c (f32_mul (Fin 1) (f32_sub t c)) =
      round_f32 (if x + (y - x) = 0 then c = NegZero \<and> Fin (y - x) = NegZero
        else x + (y - x) < 0) (x + (y - x))"
    unfolding M using f32_add_finite [of c "Fin (y - x)"] by (simp add: c)
  also have "\<dots> = Fin (fl32 (x + (y - x)))"
    using ry yb by (intro round_f32_Fin) (simp_all add: c)
  finally show ?thesis using ry by (simp add: FMath_Lerp_def t)
qed



lemma combat_fields:
  "CurrentContext (SetCombat UStaticWavesMusicSubsystem) = FMusicContext_default"
  "TargetContext (SetCombat UStaticWavesMusicSubsystem) =
     \<lparr>Energy = Fin (7549747 / 8388608), Tension = Fin (13421773 / 16777216),
      Darkness = Fin (5033165 / 8388608), Complexity = Fin (11744051 / 16777216)\<rparr>"
  "TransitionAlpha (SetCombat UStaticWavesMusicSubsystem) = Fin 0"
  "TransitionDuration (SetCombat UStaticWavesMusicSubsystem) = Fin 1"
  by (simp_all add: SetCombat_def TransitionToContext_def default_TransitionTime_def
      UStaticWavesMusicSubsystem_def FMath_Max_def ev)

lemma sub_is_f32: "is_f32 (f32_sub a b)"
  by (simp add: f32_sub_def add_is_f32)

lemma exact_fieldI:
  assumes "is_f32 t" "t = Fin y" "is_f32 d" "d = Fin (y - x)"
  shows "exact_field (Fin x) (Fin y)"
  using assms by simp

lemma combat_exact:
  "exact_difference (CurrentContext (SetCombat UStaticWavesMusicSubsystem))
     (TargetContext (SetCombat UStaticWavesMusicSubsystem))"
proof -
  have "exact_field (Fin (1 / 2)) (Fin (7549747 / 8388608))"
    by (rule exact_fieldI [OF lit_is_f32 [of "0.9"] _
          sub_is_f32 [of "Fin (7549747 / 8388608)" "Fin (1 / 2)"]])
       (simp_all add: ev)
  moreover have "exact_field (Fin (1 / 2)) (Fin (13421773 / 16777216))"
    by (rule exact_fieldI [OF lit_is_f32 [of "0.8"] _
          sub_is_f32 [of "Fin (13421773 / 16777216)" "Fin (1 / 2)"]])
       (simp_all add: ev)
  moreover have "exact_field (Fin (1 / 2)) (Fin (5033165 / 8388608))"
    by (rule exact_fieldI [OF lit_is_f32 [of "0.6"] _
          sub_is_f32 [of "Fin (5033165 / 8388608)" "Fin (1 / 2)"]])
       (simp_all add: ev)
  moreover have "exact_field (Fin (1 / 2)) (Fin (11744051 / 16777216))"
    by (rule exact_fieldI [OF lit_is_f32 [of "0.7"] _
          sub_is_f32 [of "Fin (11744051 / 16777216)" "Fin (1 / 2)"]])
       (simp_all add: ev)
  ultimately show ?thesis
    unfolding combat_fields FMusicContext_default_def exact_difference_def
    by (simp del: exact_field.simps)
qed


end
